theory Spec2Isabelle
  imports Complex_Main "HOL-Library.AList"
begin

section \<open>Python values and containers\<close>

text \<open>
  A Python \<^verbatim>\<open>dict\<close> keeps its keys in insertion order and holds every key once.  It is an
  association list here: \<open>map_of\<close> reads a key, \<open>AList.update\<close> is the assignment
  \<^verbatim>\<open>d[k] = v\<close> (a key already there keeps its place, a new one goes to the end) and
  \<open>AList.delete\<close> removes a key.
\<close>

type_synonym ('k, 'v) dict = "('k \<times> 'v) list"

text \<open>The exceptions this module can raise by itself.  \<^verbatim>\<open>KeyError\<close> carries the missing key.\<close>

datatype key = StrKey string | IntKey int

datatype error = KeyError key | TypeError

text \<open>\<^verbatim>\<open>d.update(other)\<close>: the items of \<open>other\<close> are assigned in their order.\<close>

definition dict_update :: "('k, 'v) dict \<Rightarrow> ('k, 'v) dict \<Rightarrow> ('k, 'v) dict" where
  "dict_update d other = fold (\<lambda>(k, v). AList.update k v) other d"

text \<open>\<^verbatim>\<open>d.pop(k)\<close> raises \<^verbatim>\<open>KeyError(k)\<close> when the key is missing; \<^verbatim>\<open>d.pop(k, default)\<close> does not.\<close>

definition pop :: "string \<Rightarrow> (string, 'v) dict \<Rightarrow> error + ('v \<times> (string, 'v) dict)" where
  "pop k d = (case map_of d k of
                None \<Rightarrow> Inl (KeyError (StrKey k))
              | Some v \<Rightarrow> Inr (v, AList.delete k d))"

definition pop_default :: "string \<Rightarrow> 'v \<Rightarrow> (string, 'v) dict \<Rightarrow> 'v \<times> (string, 'v) dict" where
  "pop_default k dflt d = (case map_of d k of
                             None \<Rightarrow> (dflt, d)
                           | Some v \<Rightarrow> (v, AList.delete k d))"

text \<open>\<^verbatim>\<open>s.startswith(p)\<close>.\<close>

definition startswith :: "string \<Rightarrow> string \<Rightarrow> bool" where
  "startswith s p = (take (length p) s = p)"

text \<open>
  \<^verbatim>\<open>s.split(sep, maxsplit=1)\<close> for a separator of one character: the string is cut at the
  first separator, or returned whole in a list of one element.
\<close>

fun cut_at :: "char \<Rightarrow> string \<Rightarrow> (string \<times> string) option" where
  "cut_at sep [] = None"
| "cut_at sep (c # cs) =
     (if c = sep then Some ([], cs)
      else (case cut_at sep cs of None \<Rightarrow> None | Some (a, b) \<Rightarrow> Some (c # a, b)))"

definition split_maxsplit1 :: "char \<Rightarrow> string \<Rightarrow> string list" where
  "split_maxsplit1 sep s = (case cut_at sep s of None \<Rightarrow> [s] | Some (a, b) \<Rightarrow> [a, b])"

section \<open>The blocks of an SDF file\<close>

text \<open>
  The reader \<^verbatim>\<open>sdf.read(filename, dict=True)\<close> is an external library.  It returns a
  \<^verbatim>\<open>dict\<close> from names to values; the fields below are the ones \<^verbatim>\<open>open_sdf_dataset\<close>
  reads.  Payloads (constants, arrays, header values) are opaque: the type \<open>'a\<close>.
\<close>

record 'a plain_mesh =
  mesh_name :: string
  mesh_labels :: "string list"
  mesh_units :: "string list"
  mesh_data :: "'a list"
  mesh_dims :: "int list"

record 'a plain_variable =
  var_units :: string
  var_data :: 'a
  var_dims :: "int list"
  var_grid :: "'a plain_mesh"
  var_grid_mid :: "'a plain_mesh"

text \<open>
  The values of the mapping: a plain \<^verbatim>\<open>dict\<close> (as under \<^verbatim>\<open>"Header"\<close> and
  \<^verbatim>\<open>"Run_info"\<close>), an instance of one of the three block classes the loop tests for, or a
  block of any other class.
\<close>

datatype 'a block =
    Dict "(string, 'a) dict"
  | BlockConstant 'a
  | BlockPlainMesh "'a plain_mesh"
  | BlockPlainVariable "'a plain_variable"
  | BlockOther

section \<open>Coordinate names\<close>

text \<open>\<^verbatim>\<open>name.split("/", maxsplit=1)[-1]\<close>\<close>

definition base_name_of :: "string \<Rightarrow> string" where
  "base_name_of name = last (split_maxsplit1 CHR ''/'' name)"

text \<open>\<^verbatim>\<open>f"{label}_{base_name}"\<close>\<close>

definition full_name :: "string \<Rightarrow> string \<Rightarrow> string" where
  "full_name label base_name = label @ ''_'' @ base_name"

text \<open>An entry of \<^verbatim>\<open>coords\<close>: the dimension name, the data and the attribute dict.\<close>

type_synonym 'a coord = "string \<times> 'a \<times> (string, string) dict"

text \<open>
  The assignments \<^verbatim>\<open>coords[full_name] = (full_name, coord, {...})\<close> that the mesh branch
  makes for one mesh, in order; \<^verbatim>\<open>zip\<close> stops at the shortest of the three lists.
\<close>

definition mesh_coords :: "string \<Rightarrow> 'a plain_mesh \<Rightarrow> (string, 'a coord) dict" where
  "mesh_coords key value =
     (let base_name = base_name_of key in
      map (\<lambda>(label, coord, unit).
             (full_name label base_name,
              (full_name label base_name, coord, [(''long_name'', label), (''units'', unit)])))
          (zip (mesh_labels value) (zip (mesh_data value) (mesh_units value))))"

section \<open>The size lookup of a variable\<close>

text \<open>
  \<^verbatim>\<open>dim_size_lookup = defaultdict(dict)\<close>: from a dimension label to a dict from a size to
  our coordinate name.  A label that is missing reads as the empty dict.
\<close>

type_synonym size_lookup = "(string, (int, string) dict) dict"

definition inner_dict :: "size_lookup \<Rightarrow> string \<Rightarrow> (int, string) dict" where
  "inner_dict t dim_name = (case map_of t dim_name of None \<Rightarrow> [] | Some d \<Rightarrow> d)"

text \<open>\<^verbatim>\<open>dim_size_lookup[dim_name][dim_size] = v\<close>\<close>

definition lookup_set :: "string \<Rightarrow> int \<Rightarrow> string \<Rightarrow> size_lookup \<Rightarrow> size_lookup" where
  "lookup_set dim_name dim_size v t =
     AList.update dim_name (AList.update dim_size v (inner_dict t dim_name)) t"

text \<open>\<^verbatim>\<open>dim_size_lookup[dim_name][dim_size]\<close>, which raises \<^verbatim>\<open>KeyError(dim_size)\<close>.\<close>

definition lookup_get :: "size_lookup \<Rightarrow> string \<Rightarrow> int \<Rightarrow> error + string" where
  "lookup_get t dim_name dim_size =
     (case map_of (inner_dict t dim_name) dim_size of
        None \<Rightarrow> Inl (KeyError (IntKey dim_size))
      | Some c \<Rightarrow> Inr c)"

text \<open>One of the two loops over \<^verbatim>\<open>zip(grid.dims, grid.labels)\<close>.\<close>

definition add_grid :: "'a plain_mesh \<Rightarrow> size_lookup \<Rightarrow> size_lookup" where
  "add_grid g t =
     (let grid_base_name = base_name_of (mesh_name g) in
      fold (\<lambda>(dim_size, dim_name). lookup_set dim_name dim_size (full_name dim_name grid_base_name))
           (zip (mesh_dims g) (mesh_labels g)) t)"

text \<open>The table once both loops have run: the grid first, then the mid grid.\<close>

definition build_lookup :: "'a plain_variable \<Rightarrow> size_lookup" where
  "build_lookup value = add_grid (var_grid_mid value) (add_grid (var_grid value) [])"

section \<open>The conversion loop\<close>

text \<open>
  \<^verbatim>\<open>var_coords\<close> is a generator expression.  Its iterable
  \<^verbatim>\<open>zip(value.grid.labels, value.dims)\<close> is fixed when the generator is made, but its
  element expression \<^verbatim>\<open>dim_size_lookup[dim_name][dim_size]\<close> runs only when the generator
  is consumed, and reads the local variable \<^verbatim>\<open>dim_size_lookup\<close> of the enclosing function
  at that moment.  So an entry of \<^verbatim>\<open>data_vars\<close> holds the pairs still to be looked up, and
  the local variable is part of the state.
\<close>

type_synonym 'a lazy_var = "(string \<times> int) list \<times> 'a \<times> (string, string) dict"

record 'a locals =
  attrs :: "(string, 'a) dict"
  data_vars :: "(string, 'a lazy_var) dict"
  coords :: "(string, 'a coord) dict"
  dim_size_lookup :: size_lookup

text \<open>The body of \<^verbatim>\<open>for key, value in data.items()\<close>.\<close>

definition loop_body :: "string \<times> 'a block \<Rightarrow> 'a locals \<Rightarrow> 'a locals" where
  "loop_body kv st =
     (case kv of (key, value) \<Rightarrow>
        if startswith key ''CPU'' then st
        else (case value of
                BlockConstant d \<Rightarrow> st\<lparr>attrs := AList.update key d (attrs st)\<rparr>
              | BlockPlainMesh m \<Rightarrow> st\<lparr>coords := dict_update (coords st) (mesh_coords key m)\<rparr>
              | BlockPlainVariable v \<Rightarrow>
                  st\<lparr>dim_size_lookup := build_lookup v,
                     data_vars := AList.update key
                       (zip (mesh_labels (var_grid v)) (var_dims v), var_data v,
                        [(''units'', var_units v)])
                       (data_vars st)\<rparr>
              | _ \<Rightarrow> st))"

text \<open>
  The locals before the loop.  \<^verbatim>\<open>dim_size_lookup\<close> is unbound until the first variable
  block binds it, and no generator exists before that, so its initial value is never read.
\<close>

definition init_locals :: "(string, 'a) dict \<Rightarrow> 'a locals" where
  "init_locals a = \<lparr>attrs = a, data_vars = [], coords = [], dim_size_lookup = []\<rparr>"

definition convert_blocks :: "(string, 'a) dict \<Rightarrow> (string, 'a block) dict \<Rightarrow> 'a locals" where
  "convert_blocks a data = fold loop_body data (init_locals a)"

section \<open>Building the dataset\<close>

text \<open>
  \<^verbatim>\<open>xr.Dataset(data_vars, attrs=attrs, coords=coords)\<close> is the host library.  The model
  keeps the three arguments it is built from.  To make a variable from the tuple
  \<^verbatim>\<open>(var_coords, data, attrs)\<close> the library turns the dimensions into a tuple, which runs
  the generator: every lookup happens here, after the loop, against the value the local
  variable has then, and a failed lookup raises out of \<^verbatim>\<open>open_sdf_dataset\<close>.
\<close>

type_synonym 'a data_var = "string list \<times> 'a \<times> (string, string) dict"

record 'a dataset =
  ds_data_vars :: "(string, 'a data_var) dict"
  ds_attrs :: "(string, 'a) dict"
  ds_coords :: "(string, 'a coord) dict"

fun run_var_coords :: "size_lookup \<Rightarrow> (string \<times> int) list \<Rightarrow> error + string list" where
  "run_var_coords t [] = Inr []"
| "run_var_coords t (p # ps) =
     (case lookup_get t (fst p) (snd p) of
        Inl e \<Rightarrow> Inl e
      | Inr c \<Rightarrow> (case run_var_coords t ps of Inl e \<Rightarrow> Inl e | Inr cs \<Rightarrow> Inr (c # cs)))"

fun run_data_vars ::
  "size_lookup \<Rightarrow> (string, 'a lazy_var) dict \<Rightarrow> error + (string, 'a data_var) dict" where
  "run_data_vars t [] = Inr []"
| "run_data_vars t (kv # rest) =
     (case run_var_coords t (fst (snd kv)) of
        Inl e \<Rightarrow> Inl e
      | Inr cs \<Rightarrow> (case run_data_vars t rest of
                    Inl e \<Rightarrow> Inl e
                  | Inr vs \<Rightarrow> Inr ((fst kv, (cs, snd (snd kv))) # vs)))"

definition make_dataset :: "'a locals \<Rightarrow> error + 'a dataset" where
  "make_dataset st =
     (case run_data_vars (dim_size_lookup st) (data_vars st) of
        Inl e \<Rightarrow> Inl e
      | Inr vs \<Rightarrow> Inr \<lparr>ds_data_vars = vs, ds_attrs = attrs st, ds_coords = coords st\<rparr>)"

section \<open>\<^verbatim>\<open>open_sdf_dataset\<close>\<close>

text \<open>
  \<^verbatim>\<open>for variable in drop_variables: data.pop(variable)\<close>.  The guard
  \<^verbatim>\<open>if drop_variables:\<close> skips the loop for \<^verbatim>\<open>None\<close> and for an empty list.
\<close>

fun pop_all :: "string list \<Rightarrow> (string, 'v) dict \<Rightarrow> error + (string, 'v) dict" where
  "pop_all [] d = Inr d"
| "pop_all (variable # rest) d =
     (case pop variable d of Inl e \<Rightarrow> Inl e | Inr r \<Rightarrow> pop_all rest (snd r))"

definition drop_requested ::
  "string list option \<Rightarrow> (string, 'v) dict \<Rightarrow> error + (string, 'v) dict" where
  "drop_requested drop_variables data =
     (case drop_variables of None \<Rightarrow> Inr data | Some vs \<Rightarrow> pop_all vs data)"

text \<open>
  \<^verbatim>\<open>attrs.update(x)\<close> where \<open>x\<close> was popped from the mapping.  A dict is merged; a block
  object is neither a mapping nor an iterable of pairs, and \<^verbatim>\<open>dict.update\<close> raises
  \<^verbatim>\<open>TypeError\<close> on it.
\<close>

definition attrs_update :: "(string, 'a) dict \<Rightarrow> 'a block \<Rightarrow> error + (string, 'a) dict" where
  "attrs_update a x = (case x of Dict d \<Rightarrow> Inr (dict_update a d) | _ \<Rightarrow> Inl TypeError)"

text \<open>
  The two lines \<^verbatim>\<open>attrs.update(data.pop("Header", {}))\<close> and
  \<^verbatim>\<open>attrs.update(data.pop("Run_info", {}))\<close>: the attributes and what is left of the
  mapping.
\<close>

definition global_metadata ::
  "(string, 'a block) dict \<Rightarrow> error + ((string, 'a) dict \<times> (string, 'a block) dict)" where
  "global_metadata data =
     (case pop_default ''Header'' (Dict []) data of (h, data1) \<Rightarrow>
        (case attrs_update [] h of
           Inl e \<Rightarrow> Inl e
         | Inr a1 \<Rightarrow>
             (case pop_default ''Run_info'' (Dict []) data1 of (r, data2) \<Rightarrow>
                (case attrs_update a1 r of
                   Inl e \<Rightarrow> Inl e
                 | Inr a2 \<Rightarrow> Inr (a2, data2)))))"

text \<open>Everything after the exclusion: metadata, the loop, the dataset.\<close>

definition convert :: "(string, 'a block) dict \<Rightarrow> error + 'a dataset" where
  "convert data =
     (case global_metadata data of
        Inl e \<Rightarrow> Inl e
      | Inr (a, rest) \<Rightarrow> make_dataset (convert_blocks a rest))"

text \<open>
  The first argument is the mapping that \<^verbatim>\<open>sdf.read\<close> returned for the file; errors of
  the reader itself are outside the model.
\<close>

definition open_sdf_dataset ::
  "(string, 'a block) dict \<Rightarrow> string list option \<Rightarrow> error + 'a dataset" where
  "open_sdf_dataset data drop_variables =
     (case drop_requested drop_variables data of
        Inl e \<Rightarrow> Inl e
      | Inr data1 \<Rightarrow> convert data1)"

section \<open>\<^verbatim>\<open>guess_can_open\<close>\<close>

text \<open>
  \<^verbatim>\<open>os.path.splitext\<close> (POSIX): the extension starts at the last dot of the path, if that
  dot lies after the last \<^verbatim>\<open>/\<close> and some character between the two is not a dot;
  otherwise the extension is empty.
\<close>

fun rfind_from :: "char \<Rightarrow> string \<Rightarrow> int \<Rightarrow> int \<Rightarrow> int" where
  "rfind_from c [] i found = found"
| "rfind_from c (x # xs) i found = rfind_from c xs (i + 1) (if x = c then i else found)"

definition rfind :: "string \<Rightarrow> char \<Rightarrow> int" where
  "rfind p c = rfind_from c p 0 (- 1)"

definition splitext :: "string \<Rightarrow> string \<times> string" where
  "splitext p =
     (let sepIndex = rfind p CHR ''/''; dotIndex = rfind p CHR ''.'' in
      if dotIndex > sepIndex \<and>
         list_ex (\<lambda>c. c \<noteq> CHR ''.'')
           (take (nat (dotIndex - (sepIndex + 1))) (drop (nat (sepIndex + 1)) p))
      then (take (nat dotIndex) p, drop (nat dotIndex) p)
      else (p, []))"

text \<open>
  The argument of the probe: a \<^verbatim>\<open>str\<close> (or a path object standing for one), or anything
  else, for which \<^verbatim>\<open>os.path.splitext\<close> raises \<^verbatim>\<open>TypeError\<close> or returns \<^verbatim>\<open>bytes\<close>, equal to
  no \<^verbatim>\<open>str\<close>.
\<close>

datatype filename_or_obj = Path string | NotAStrPath

text \<open>
  \<open>magic_number\<close> is what \<^verbatim>\<open>try_read_magic_number_from_path\<close> of the host library
  returned: the leading bytes of the file, or \<^verbatim>\<open>None\<close> when it could not read them.
\<close>

definition guess_can_open :: "string option \<Rightarrow> filename_or_obj \<Rightarrow> bool" where
  "guess_can_open magic_number f =
     (case magic_number of
        Some m \<Rightarrow> startswith m ''SDF1''
      | None \<Rightarrow>
          (case f of
             NotAStrPath \<Rightarrow> False
           | Path p \<Rightarrow> snd (splitext p) \<in> set [''.sdf'', ''.SDF'']))"

section \<open>What the loop writes\<close>

text \<open>
  The loop is described by the assignments it makes, in order.  The blocks it looks at are
  the ones whose name does not start with \<^verbatim>\<open>CPU\<close>.
\<close>

definition visible :: "(string, 'a block) dict \<Rightarrow> (string, 'a block) dict" where
  "visible data = filter (\<lambda>kv. \<not> startswith (fst kv) ''CPU'') data"

text \<open>The tuple stored in \<^verbatim>\<open>data_vars\<close> for a variable block, its generator not yet run.\<close>

definition lazy_of :: "'a plain_variable \<Rightarrow> 'a lazy_var" where
  "lazy_of v =
     (zip (mesh_labels (var_grid v)) (var_dims v), var_data v, [(''units'', var_units v)])"

text \<open>The assignments \<^verbatim>\<open>attrs[key] = value.data\<close> of the constant blocks.\<close>

definition const_writes :: "(string, 'a block) dict \<Rightarrow> (string, 'a) dict" where
  "const_writes data =
     concat (map (\<lambda>kv. case snd kv of BlockConstant d \<Rightarrow> [(fst kv, d)] | _ \<Rightarrow> [])
                 (visible data))"

text \<open>The assignments to \<^verbatim>\<open>coords\<close> of the mesh blocks.\<close>

definition coord_writes :: "(string, 'a block) dict \<Rightarrow> (string, 'a coord) dict" where
  "coord_writes data =
     concat (map (\<lambda>kv. case snd kv of BlockPlainMesh m \<Rightarrow> mesh_coords (fst kv) m | _ \<Rightarrow> [])
                 (visible data))"

text \<open>The variable blocks the loop converts, in order.\<close>

definition variables_of :: "(string, 'a block) dict \<Rightarrow> (string, 'a plain_variable) dict" where
  "variables_of data =
     concat (map (\<lambda>kv. case snd kv of BlockPlainVariable v \<Rightarrow> [(fst kv, v)] | _ \<Rightarrow> [])
                 (visible data))"



section \<open>Sample files\<close>

text \<open>
  A primary mesh with 129 points along \<open>X\<close>, its mid mesh with 128, and a variable with
  128 values along \<open>X\<close>.
\<close>

definition ex_grid :: "real plain_mesh" where
  "ex_grid = \<lparr>mesh_name = ''Grid/Grid'', mesh_labels = [''X''], mesh_units = [''m''],
              mesh_data = [0], mesh_dims = [129]\<rparr>"

definition ex_grid_mid :: "real plain_mesh" where
  "ex_grid_mid = \<lparr>mesh_name = ''Grid/Grid_mid'', mesh_labels = [''X''], mesh_units = [''m''],
                  mesh_data = [1], mesh_dims = [128]\<rparr>"

definition ex_var :: "real plain_variable" where
  "ex_var = \<lparr>var_units = ''V/m'', var_data = 5, var_dims = [128],
             var_grid = ex_grid, var_grid_mid = ex_grid_mid\<rparr>"

definition ex_file :: "(string, real block) dict" where
  "ex_file = [(''Grid/Grid'', BlockPlainMesh ex_grid),
              (''Grid/Grid_mid'', BlockPlainMesh ex_grid_mid),
              (''Electric Field/Ex'', BlockPlainVariable ex_var)]"

text \<open>
  A variable whose size along \<open>X\<close> is in neither of its meshes, and a file with blocks of
  every kind under names that start with \<^verbatim>\<open>CPU\<close>.
\<close>

definition bad_var :: "real plain_variable" where
  "bad_var = \<lparr>var_units = ''s'', var_data = 6, var_dims = [7],
              var_grid = ex_grid, var_grid_mid = ex_grid_mid\<rparr>"

definition cpu_file :: "(string, real block) dict" where
  "cpu_file = [(''CPU/Load'', BlockPlainVariable bad_var),
               (''CPU_count'', BlockConstant 4),
               (''CPU/Grid'', BlockPlainMesh ex_grid),
               (''Grid/Grid_mid'', BlockPlainMesh ex_grid_mid),
               (''Wall-time'', BlockConstant 9),
               (''Electric Field/Ex'', BlockPlainVariable ex_var)]"

text \<open>A file with the two metadata dicts only, and a file without them.\<close>

definition meta_file :: "(string, real block) dict" where
  "meta_file = [(''Header'', Dict [(''time'', 1)]), (''Run_info'', Dict [(''time'', 2)])]"

definition no_meta_file :: "(string, real block) dict" where
  "no_meta_file = [(''Wall-time'', BlockConstant 9)]"


text \<open>
  Variables on meshes of their own.  Each variable has the size of its own mesh, 10 for
  \<open>a\<close> and \<open>c\<close>, 20 for \<open>b\<close>.
\<close>

definition grid_a :: "real plain_mesh" where
  "grid_a = \<lparr>mesh_name = ''Grid/A'', mesh_labels = [''X''], mesh_units = [''m''],
             mesh_data = [0], mesh_dims = [10]\<rparr>"

definition grid_b :: "real plain_mesh" where
  "grid_b = \<lparr>mesh_name = ''Grid/B'', mesh_labels = [''X''], mesh_units = [''m''],
             mesh_data = [0], mesh_dims = [20]\<rparr>"

definition grid_c :: "real plain_mesh" where
  "grid_c = \<lparr>mesh_name = ''Grid/C'', mesh_labels = [''X''], mesh_units = [''m''],
             mesh_data = [0], mesh_dims = [10]\<rparr>"

definition var_a :: "real plain_variable" where
  "var_a = \<lparr>var_units = ''K'', var_data = 1, var_dims = [10],
            var_grid = grid_a, var_grid_mid = grid_a\<rparr>"

definition var_b :: "real plain_variable" where
  "var_b = \<lparr>var_units = ''K'', var_data = 2, var_dims = [20],
            var_grid = grid_b, var_grid_mid = grid_b\<rparr>"

definition var_c :: "real plain_variable" where
  "var_c = \<lparr>var_units = ''K'', var_data = 3, var_dims = [10],
            var_grid = grid_c, var_grid_mid = grid_c\<rparr>"

definition two_grid_file :: "(string, real block) dict" where
  "two_grid_file = [(''a'', BlockPlainVariable var_a), (''b'', BlockPlainVariable var_b)]"

definition same_size_file :: "(string, real block) dict" where
  "same_size_file = [(''a'', BlockPlainVariable var_a), (''c'', BlockPlainVariable var_c)]"




text \<open>
  The example variable followed by a variable on a mesh of its own, which has 128 points
  along \<open>X\<close> in the first file and 64 in the second.
\<close>

definition grid_p :: "real plain_mesh" where
  "grid_p = \<lparr>mesh_name = ''Grid/P'', mesh_labels = [''X''], mesh_units = [''m''],
             mesh_data = [2], mesh_dims = [128]\<rparr>"

definition var_p :: "real plain_variable" where
  "var_p = \<lparr>var_units = ''Pa'', var_data = 7, var_dims = [128],
            var_grid = grid_p, var_grid_mid = grid_p\<rparr>"

definition grid_h :: "real plain_mesh" where
  "grid_h = \<lparr>mesh_name = ''Grid/H'', mesh_labels = [''X''], mesh_units = [''m''],
             mesh_data = [3], mesh_dims = [64]\<rparr>"

definition var_h :: "real plain_variable" where
  "var_h = \<lparr>var_units = ''Pa'', var_data = 8, var_dims = [64],
            var_grid = grid_h, var_grid_mid = grid_h\<rparr>"

definition ex_then_p_file :: "(string, real block) dict" where
  "ex_then_p_file = [(''Grid/Grid'', BlockPlainMesh ex_grid),
                     (''Grid/Grid_mid'', BlockPlainMesh ex_grid_mid),
                     (''Electric Field/Ex'', BlockPlainVariable ex_var),
                     (''Grid/P'', BlockPlainMesh grid_p),
                     (''Fluid/P'', BlockPlainVariable var_p)]"

definition ex_then_h_file :: "(string, real block) dict" where
  "ex_then_h_file = [(''Grid/Grid'', BlockPlainMesh ex_grid),
                     (''Grid/Grid_mid'', BlockPlainMesh ex_grid_mid),
                     (''Electric Field/Ex'', BlockPlainVariable ex_var),
                     (''Grid/H'', BlockPlainMesh grid_h),
                     (''Fluid/H'', BlockPlainVariable var_h)]"

text \<open>
  Two meshes under the names \<^verbatim>\<open>Grid/X_Grid\<close> and \<^verbatim>\<open>Grid_mid/X_Grid_mid\<close>, each with
  one axis \<open>X\<close>; and two meshes whose names differ before the first \<^verbatim>\<open>/\<close> only.
\<close>

definition x_grid :: "real plain_mesh" where
  "x_grid = \<lparr>mesh_name = ''Grid/X_Grid'', mesh_labels = [''X''], mesh_units = [''m''],
             mesh_data = [0], mesh_dims = [129]\<rparr>"

definition x_grid_mid :: "real plain_mesh" where
  "x_grid_mid = \<lparr>mesh_name = ''Grid_mid/X_Grid_mid'', mesh_labels = [''X''],
                 mesh_units = [''m''], mesh_data = [1], mesh_dims = [128]\<rparr>"

definition x_grid_file :: "(string, real block) dict" where
  "x_grid_file = [(''Grid/X_Grid'', BlockPlainMesh x_grid),
                  (''Grid_mid/X_Grid_mid'', BlockPlainMesh x_grid_mid)]"

definition fluid_mesh :: "real plain_mesh" where
  "fluid_mesh = \<lparr>mesh_name = ''Fluid/Mesh'', mesh_labels = [''X''], mesh_units = [''m''],
                 mesh_data = [0], mesh_dims = [10]\<rparr>"

definition field_mesh :: "real plain_mesh" where
  "field_mesh = \<lparr>mesh_name = ''Field/Mesh'', mesh_labels = [''X''], mesh_units = [''m''],
                 mesh_data = [1], mesh_dims = [20]\<rparr>"

definition same_base_file :: "(string, real block) dict" where
  "same_base_file = [(''Fluid/Mesh'', BlockPlainMesh fluid_mesh),
                     (''Field/Mesh'', BlockPlainMesh field_mesh)]"

text \<open>
  A file with a header that has a key \<^verbatim>\<open>time\<close>, a constant of the same name, another
  constant, two meshes and a variable.
\<close>

definition drop_file :: "(string, real block) dict" where
  "drop_file = [(''Header'', Dict [(''time'', 1)]),
                (''time'', BlockConstant 5),
                (''Wall-time'', BlockConstant 9),
                (''Grid/Grid'', BlockPlainMesh ex_grid),
                (''Grid/Grid_mid'', BlockPlainMesh ex_grid_mid),
                (''Electric Field/Ex'', BlockPlainVariable ex_var)]"

section \<open>Basic facts\<close>

lemmas model_defs =
  open_sdf_dataset_def drop_requested_def convert_def global_metadata_def pop_default_def pop_def
  attrs_update_def dict_update_def convert_blocks_def init_locals_def loop_body_def
  startswith_def mesh_coords_def base_name_of_def split_maxsplit1_def full_name_def
  build_lookup_def add_grid_def lookup_set_def inner_dict_def make_dataset_def lookup_get_def
  Let_def

lemma dict_update_Nil [simp]: "dict_update d [] = d"
  by (simp add: dict_update_def)

lemma dict_update_Cons [simp]:
  "dict_update d (kv # other) = dict_update (AList.update (fst kv) (snd kv) d) other"
  by (simp add: dict_update_def split_beta)

lemma dict_update_append [simp]: "dict_update d (xs @ ys) = dict_update (dict_update d xs) ys"
  by (simp add: dict_update_def)

lemma update_mem: "(k, v) \<in> set (AList.update k v al)"
  by (induction al) auto

lemma last_in_dict_update: "xs \<noteq> [] \<Longrightarrow> last xs \<in> set (dict_update d xs)"
proof (induction xs arbitrary: d rule: rev_induct)
  case Nil
  then show ?case by simp
next
  case (snoc x xs)
  show ?case by (cases x) (simp add: update_mem)
qed

lemma dict_update_keys: "fst ` set (dict_update d xs) = fst ` set d \<union> fst ` set xs"
  by (induction xs arbitrary: d) (auto simp: dom_update)

lemma map_of_dict_update: "map_of (dict_update d xs) = map_of d ++ map_of (rev xs)"
proof (induction xs arbitrary: d)
  case Nil
  then show ?case by simp
next
  case (Cons kv xs)
  have "map_of (AList.update (fst kv) (snd kv) d) = (map_of d)(fst kv \<mapsto> snd kv)"
    by (rule update_conv')
  then show ?case
    by (auto simp: Cons map_add_def fun_eq_iff split: option.splits)
qed

subsection \<open>Names\<close>

lemma cut_at_absent: "sep \<notin> set s \<Longrightarrow> cut_at sep s = None"
  by (induction s) auto

lemma cut_at_first: "sep \<notin> set a \<Longrightarrow> cut_at sep (a @ sep # b) = Some (a, b)"
  by (induction a) auto

lemma base_name_of_plain: "CHR ''/'' \<notin> set name \<Longrightarrow> base_name_of name = name"
  by (simp add: base_name_of_def split_maxsplit1_def cut_at_absent)

lemma base_name_of_path: "CHR ''/'' \<notin> set a \<Longrightarrow> base_name_of (a @ CHR ''/'' # b) = b"
  by (simp add: base_name_of_def split_maxsplit1_def cut_at_first)

lemma length_mesh_coords:
  "length (mesh_coords key m) =
     min (length (mesh_labels m)) (min (length (mesh_data m)) (length (mesh_units m)))"
  by (simp add: mesh_coords_def Let_def)

lemma nth_mesh_coords:
  "i < length (mesh_coords key m) \<Longrightarrow>
   mesh_coords key m ! i =
     (full_name (mesh_labels m ! i) (base_name_of key),
      (full_name (mesh_labels m ! i) (base_name_of key), mesh_data m ! i,
       [(''long_name'', mesh_labels m ! i), (''units'', mesh_units m ! i)]))"
  by (simp add: mesh_coords_def Let_def)

subsection \<open>The loop\<close>

lemma loop_body_skip: "startswith (fst kv) ''CPU'' \<Longrightarrow> loop_body kv st = st"
  by (cases kv) (simp add: loop_body_def)

lemma fold_loop_body_visible: "fold loop_body (visible data) st = fold loop_body data st"
  by (induction data arbitrary: st) (simp_all add: visible_def loop_body_skip)

lemma attrs_fold: "attrs (fold loop_body data st) = dict_update (attrs st) (const_writes data)"
proof (induction data arbitrary: st)
  case Nil
  then show ?case by (simp add: const_writes_def visible_def)
next
  case (Cons kv data)
  obtain key val where kv: "kv = (key, val)" by (cases kv)
  show ?case
  proof (cases "startswith key ''CPU''")
    case True
    then show ?thesis
      using Cons[of st] by (simp add: kv loop_body_def const_writes_def visible_def)
  next
    case False
    then show ?thesis
      using Cons[of "loop_body kv st"]
      by (cases val) (simp_all add: kv loop_body_def const_writes_def visible_def)
  qed
qed

lemma coords_fold: "coords (fold loop_body data st) = dict_update (coords st) (coord_writes data)"
proof (induction data arbitrary: st)
  case Nil
  then show ?case by (simp add: coord_writes_def visible_def)
next
  case (Cons kv data)
  obtain key val where kv: "kv = (key, val)" by (cases kv)
  show ?case
  proof (cases "startswith key ''CPU''")
    case True
    then show ?thesis
      using Cons[of st] by (simp add: kv loop_body_def coord_writes_def visible_def)
  next
    case False
    then show ?thesis
      using Cons[of "loop_body kv st"]
      by (cases val) (simp_all add: kv loop_body_def coord_writes_def visible_def)
  qed
qed

lemma variables_of_Nil [simp]: "variables_of [] = []"
  by (simp add: variables_of_def visible_def)

lemma variables_of_Cons:
  "variables_of (kv # data) =
     (if startswith (fst kv) ''CPU'' then variables_of data
      else (case snd kv of BlockPlainVariable v \<Rightarrow> [(fst kv, v)] | _ \<Rightarrow> []) @ variables_of data)"
  by (simp add: variables_of_def visible_def)

lemma data_vars_fold:
  "data_vars (fold loop_body data st) =
     dict_update (data_vars st) (map (\<lambda>kv. (fst kv, lazy_of (snd kv))) (variables_of data))"
proof (induction data arbitrary: st)
  case Nil
  then show ?case by simp
next
  case (Cons kv data)
  obtain key val where kv: "kv = (key, val)" by (cases kv)
  show ?case
  proof (cases "startswith key ''CPU''")
    case True
    then show ?thesis
      using Cons[of st] by (simp add: kv loop_body_skip variables_of_Cons)
  next
    case False
    then show ?thesis
      using Cons[of "loop_body kv st"]
      by (cases val) (simp_all add: kv loop_body_def variables_of_Cons lazy_of_def)
  qed
qed

lemma dim_size_lookup_fold:
  "dim_size_lookup (fold loop_body data st) =
     (if variables_of data = [] then dim_size_lookup st
      else build_lookup (snd (last (variables_of data))))"
proof (induction data arbitrary: st)
  case Nil
  then show ?case by simp
next
  case (Cons kv data)
  obtain key val where kv: "kv = (key, val)" by (cases kv)
  show ?case
  proof (cases "startswith key ''CPU''")
    case True
    then show ?thesis
      using Cons[of st] by (simp add: kv loop_body_skip variables_of_Cons)
  next
    case False
    then show ?thesis
      using Cons[of "loop_body kv st"]
      by (cases val) (simp_all add: kv loop_body_def variables_of_Cons)
  qed
qed

subsection \<open>The size lookup\<close>

lemma inner_dict_Nil [simp]: "inner_dict [] l = []"
  by (simp add: inner_dict_def)

lemma inner_lookup_set:
  "map_of (inner_dict (lookup_set l s v t) l') s' =
     (if l' = l \<and> s' = s then Some v else map_of (inner_dict t l') s')"
  by (simp add: lookup_set_def inner_dict_def update_conv')

lemma inner_fold_lookup_set:
  "map_of (inner_dict
       (fold (\<lambda>(dim_size, dim_name). lookup_set dim_name dim_size (full_name dim_name b)) ps t)
       l) s =
     (if (s, l) \<in> set ps then Some (full_name l b) else map_of (inner_dict t l) s)"
proof (induction ps arbitrary: t)
  case Nil
  then show ?case by simp
next
  case (Cons p ps)
  obtain ds dn where p: "p = (ds, dn)" by (cases p)
  show ?case
    unfolding p fold_simps prod.case Cons.IH
    by (auto simp: inner_lookup_set)
qed

lemma inner_add_grid:
  "map_of (inner_dict (add_grid g t) l) s =
     (if (s, l) \<in> set (zip (mesh_dims g) (mesh_labels g))
      then Some (full_name l (base_name_of (mesh_name g)))
      else map_of (inner_dict t l) s)"
  by (simp add: add_grid_def inner_fold_lookup_set)

lemma lookup_get_build_lookup:
  "lookup_get (build_lookup v) l s =
     (if (s, l) \<in> set (zip (mesh_dims (var_grid_mid v)) (mesh_labels (var_grid_mid v)))
      then Inr (full_name l (base_name_of (mesh_name (var_grid_mid v))))
      else if (s, l) \<in> set (zip (mesh_dims (var_grid v)) (mesh_labels (var_grid v)))
      then Inr (full_name l (base_name_of (mesh_name (var_grid v))))
      else Inl (KeyError (IntKey s)))"
  by (simp add: lookup_get_def build_lookup_def inner_add_grid)

subsection \<open>Running the generators\<close>

lemma run_var_coords_Inr:
  "run_var_coords t ps = Inr cs \<longleftrightarrow>
     length cs = length ps \<and>
     (\<forall>i<length ps. lookup_get t (fst (ps ! i)) (snd (ps ! i)) = Inr (cs ! i))"
proof (induction ps arbitrary: cs)
  case Nil
  then show ?case by auto
next
  case (Cons p ps)
  show ?case
  proof (cases cs)
    case Nil
    then show ?thesis by (auto split: sum.splits)
  next
    case (Cons c cs')
    then show ?thesis
      using Cons.IH[of cs']
      by (auto split: sum.splits simp: nth_Cons less_Suc_eq_0_disj split: nat.splits)
  qed
qed

lemma run_var_coords_fail:
  "(l, s) \<in> set ps \<Longrightarrow> lookup_get t l s = Inl e \<Longrightarrow> \<exists>e'. run_var_coords t ps = Inl e'"
  by (induction ps) (auto split: sum.splits)

lemma run_data_vars_fail:
  "(k, ps, rest) \<in> set lazy \<Longrightarrow> (l, s) \<in> set ps \<Longrightarrow> lookup_get t l s = Inl e \<Longrightarrow>
     \<exists>e'. run_data_vars t lazy = Inl e'"
proof (induction lazy)
  case Nil
  then show ?case by simp
next
  case (Cons kv lazy)
  then show ?case
    using run_var_coords_fail[of l s ps t e]
    by (auto split: sum.splits)
qed

lemma run_data_vars_keys:
  "run_data_vars t lazy = Inr vs \<Longrightarrow> map fst vs = map fst lazy"
  by (induction lazy arbitrary: vs) (auto split: sum.splits)

subsection \<open>Metadata, skipped blocks and the dataset\<close>

lemma map_of_visible:
  "\<not> startswith k ''CPU'' \<Longrightarrow> map_of (visible data) k = map_of data k"
  by (induction data) (auto simp: visible_def)

lemma delete_visible: "AList.delete k (visible data) = visible (AList.delete k data)"
  by (induction data) (auto simp: visible_def AList.delete_eq)

lemma visible_idem [simp]: "visible (visible data) = visible data"
  by (simp add: visible_def)

lemma global_metadata_eq:
  "global_metadata data =
     (case map_of data ''Header'' of
        None \<Rightarrow>
          (case map_of data ''Run_info'' of
             None \<Rightarrow> Inr ([], data)
           | Some (Dict r) \<Rightarrow> Inr (dict_update [] r, AList.delete ''Run_info'' data)
           | Some _ \<Rightarrow> Inl TypeError)
      | Some (Dict h) \<Rightarrow>
          (case map_of data ''Run_info'' of
             None \<Rightarrow> Inr (dict_update [] h, AList.delete ''Header'' data)
           | Some (Dict r) \<Rightarrow>
               Inr (dict_update (dict_update [] h) r,
                    AList.delete ''Run_info'' (AList.delete ''Header'' data))
           | Some _ \<Rightarrow> Inl TypeError)
      | Some _ \<Rightarrow> Inl TypeError)"
  by (simp add: global_metadata_def pop_default_def attrs_update_def
        split: option.splits block.splits)

lemma global_metadata_visible:
  "global_metadata (visible data) =
     (case global_metadata data of Inl e \<Rightarrow> Inl e | Inr (a, rest) \<Rightarrow> Inr (a, visible rest))"
  by (simp add: global_metadata_eq map_of_visible startswith_def delete_visible
        split: option.splits block.splits)

lemma convert_visible: "convert (visible data) = convert data"
  by (simp add: convert_def global_metadata_visible convert_blocks_def fold_loop_body_visible
        split: sum.splits prod.splits)

lemma variables_of_keys: "fst ` set (variables_of data) \<subseteq> fst ` set (visible data)"
  by (induction data) (auto simp: variables_of_Cons visible_def split: block.splits if_splits)

lemma make_dataset_keys:
  assumes "make_dataset (convert_blocks a rest) = Inr ds"
  shows "fst ` set (ds_data_vars ds) = fst ` set (variables_of rest)"
proof -
  from assms obtain vs where
    vs: "run_data_vars (dim_size_lookup (convert_blocks a rest)) (data_vars (convert_blocks a rest)) = Inr vs"
    and ds: "ds_data_vars ds = vs"
    by (auto simp: make_dataset_def split: sum.splits)
  have "map fst vs = map fst (data_vars (convert_blocks a rest))"
    using vs by (rule run_data_vars_keys)
  then have "fst ` set vs = fst ` set (data_vars (convert_blocks a rest))"
    by (metis set_map)
  also have "\<dots> = fst ` set (variables_of rest)"
    by (simp add: convert_blocks_def data_vars_fold dict_update_keys init_locals_def image_image)
  finally show ?thesis by (simp add: ds)
qed

lemma delete_absent: "map_of d k = None \<Longrightarrow> AList.delete k d = d"
  by (simp add: map_of_eq_None_iff)

lemma global_metadata_rest:
  "global_metadata data = Inr (a, rest) \<Longrightarrow>
     rest = AList.delete ''Run_info'' (AList.delete ''Header'' data)"
  by (auto simp: global_metadata_eq delete_absent split: option.splits block.splits)

lemma variables_of_delete:
  "variables_of (AList.delete k data) = filter (\<lambda>kv. fst kv \<noteq> k) (variables_of data)"
  by (induction data) (auto simp: variables_of_Cons split: block.splits)

lemma const_writes_Nil [simp]: "const_writes [] = []"
  by (simp add: const_writes_def visible_def)

lemma const_writes_Cons:
  "const_writes (kv # data) =
     (if startswith (fst kv) ''CPU'' then const_writes data
      else (case snd kv of BlockConstant d \<Rightarrow> [(fst kv, d)] | _ \<Rightarrow> []) @ const_writes data)"
  by (simp add: const_writes_def visible_def)

lemma const_writes_delete:
  "const_writes (AList.delete k data) = filter (\<lambda>kv. fst kv \<noteq> k) (const_writes data)"
  by (induction data) (auto simp: const_writes_Cons split: block.splits)

lemma const_writes_mem:
  "(k, c) \<in> set (const_writes data) \<longleftrightarrow>
     (k, BlockConstant c) \<in> set data \<and> \<not> startswith k ''CPU''"
  by (induction data) (auto simp: const_writes_Cons split: block.splits)

lemma const_writes_distinct:
  "distinct (map fst data) \<Longrightarrow> distinct (map fst (const_writes data))"
proof (induction data)
  case Nil
  then show ?case by simp
next
  case (Cons kv data)
  have "fst kv \<notin> fst ` set (const_writes data)"
  proof
    assume "fst kv \<in> fst ` set (const_writes data)"
    then obtain c where "(fst kv, c) \<in> set (const_writes data)" by auto
    then have "(fst kv, BlockConstant c) \<in> set data" by (simp add: const_writes_mem)
    then have "fst kv \<in> set (map fst data)"
      using image_eqI[of "fst kv" fst "(fst kv, BlockConstant c)" "set data"] by simp
    then show False using Cons.prems by simp
  qed
  then show ?case
    using Cons by (auto simp: const_writes_Cons split: block.splits)
qed

lemma map_of_rev_distinct:
  assumes "distinct (map fst xs)"
  shows "map_of (rev xs) = map_of xs"
proof -
  have "distinct (map fst (rev xs))"
    using assms by (simp add: rev_map[symmetric])
  then show ?thesis
    using assms map_of_inject_set[of "rev xs" xs] by simp
qed

lemma run_var_coords_error:
  "run_var_coords t ps = Inl e \<Longrightarrow> \<exists>n. e = KeyError (IntKey n)"
  by (induction ps) (auto simp: lookup_get_def split: sum.splits option.splits)

lemma run_data_vars_error:
  "run_data_vars t lazy = Inl e \<Longrightarrow> \<exists>n. e = KeyError (IntKey n)"
  by (induction lazy) (auto split: sum.splits dest: run_var_coords_error)

lemma make_dataset_error:
  "make_dataset st = Inl e \<Longrightarrow> \<exists>n. e = KeyError (IntKey n)"
  by (auto simp: make_dataset_def split: sum.splits dest: run_data_vars_error)

lemma make_dataset_no_variables:
  "variables_of rest = [] \<Longrightarrow> \<exists>ds. make_dataset (convert_blocks a rest) = Inr ds"
  by (simp add: make_dataset_def convert_blocks_def data_vars_fold init_locals_def)

lemma make_dataset_attrs:
  "make_dataset (convert_blocks a rest) = Inr ds \<Longrightarrow>
     ds_attrs ds = dict_update a (const_writes rest)"
  by (auto simp: make_dataset_def convert_blocks_def attrs_fold init_locals_def split: sum.splits)

lemma make_dataset_coords:
  "make_dataset (convert_blocks a rest) = Inr ds \<Longrightarrow>
     ds_coords ds = dict_update [] (coord_writes rest)"
  by (auto simp: make_dataset_def convert_blocks_def coords_fold init_locals_def split: sum.splits)

lemma filter_absent_key: "k \<notin> fst ` set xs \<Longrightarrow> filter (\<lambda>kv. fst kv \<noteq> k) xs = xs"
  by (induction xs) auto

lemma const_writes_not_dict:
  assumes "distinct (map fst data)" "map_of data k = Some (Dict d)"
  shows "k \<notin> fst ` set (const_writes data)"
proof
  assume "k \<in> fst ` set (const_writes data)"
  then obtain c where "(k, c) \<in> set (const_writes data)" by auto
  then have "(k, BlockConstant c) \<in> set data" by (simp add: const_writes_mem)
  then have "map_of data k = Some (BlockConstant c)"
    using assms(1) by simp
  then show False using assms(2) by simp
qed

lemma global_metadata_ok:
  assumes "\<forall>b. map_of data ''Header'' = Some b \<or> map_of data ''Run_info'' = Some b \<longrightarrow>
             (\<exists>d. b = Dict d)"
  shows "\<exists>a0 rest. global_metadata data = Inr (a0, rest)"
proof (cases "map_of data ''Header''")
  case None
  show ?thesis
  proof (cases "map_of data ''Run_info''")
    case None
    with \<open>map_of data ''Header'' = None\<close> show ?thesis by (simp add: global_metadata_eq)
  next
    case (Some b)
    then obtain d where "b = Dict d" using assms by blast
    with Some \<open>map_of data ''Header'' = None\<close> show ?thesis by (simp add: global_metadata_eq)
  qed
next
  case (Some bh)
  then obtain h where bh: "bh = Dict h" using assms by blast
  show ?thesis
  proof (cases "map_of data ''Run_info''")
    case None
    with Some bh show ?thesis by (simp add: global_metadata_eq)
  next
    case (Some b)
    then obtain d where "b = Dict d" using assms by blast
    with Some \<open>map_of data ''Header'' = Some bh\<close> bh show ?thesis
      by (simp add: global_metadata_eq)
  qed
qed

subsection \<open>The last variable block\<close>

lemma last_filter_keep:
  "xs \<noteq> [] \<Longrightarrow> P (last xs) \<Longrightarrow> filter P xs \<noteq> [] \<and> last (filter P xs) = last xs"
  by (induction xs rule: rev_induct) auto





lemma make_dataset_unresolved:
  assumes ne: "variables_of rest \<noteq> []"
    and lst: "last (variables_of rest) = (key, v)"
    and ax: "(l, s) \<in> set (zip (mesh_labels (var_grid v)) (var_dims v))"
    and n1: "(s, l) \<notin> set (zip (mesh_dims (var_grid v)) (mesh_labels (var_grid v)))"
    and n2: "(s, l) \<notin> set (zip (mesh_dims (var_grid_mid v)) (mesh_labels (var_grid_mid v)))"
  shows "\<exists>e. make_dataset (convert_blocks a rest) = Inl e"
proof -
  let ?st = "convert_blocks a rest"
  let ?lazy = "map (\<lambda>kv. (fst kv, lazy_of (snd kv))) (variables_of rest)"
  have t: "dim_size_lookup ?st = build_lookup v"
    using ne lst by (simp add: convert_blocks_def dim_size_lookup_fold)
  have dv: "data_vars ?st = dict_update [] ?lazy"
    by (simp add: convert_blocks_def data_vars_fold init_locals_def)
  have "last ?lazy = (key, lazy_of v)"
    using ne lst by (simp add: last_map)
  moreover have "?lazy \<noteq> []" using ne by simp
  ultimately have "(key, lazy_of v) \<in> set (data_vars ?st)"
    using last_in_dict_update[of ?lazy "[]"] dv by simp
  then have mem: "(key, zip (mesh_labels (var_grid v)) (var_dims v), var_data v,
                    [(''units'', var_units v)]) \<in> set (data_vars ?st)"
    by (simp add: lazy_of_def)
  have fail: "lookup_get (build_lookup v) l s = Inl (KeyError (IntKey s))"
    using n1 n2 by (simp add: lookup_get_build_lookup)
  obtain e where "run_data_vars (build_lookup v) (data_vars ?st) = Inl e"
    using run_data_vars_fail[OF mem ax fail] by blast
  then show ?thesis by (simp add: make_dataset_def t)
qed

lemma own_lookup_resolves:
  assumes "set (zip (mesh_labels (var_grid v)) (var_dims v)) \<subseteq>
           {(l, s). (s, l) \<in> set (zip (mesh_dims (var_grid v)) (mesh_labels (var_grid v))) \<or>
                    (s, l) \<in> set (zip (mesh_dims (var_grid_mid v)) (mesh_labels (var_grid_mid v)))}"
  shows "\<exists>cs. run_var_coords (build_lookup v) (zip (mesh_labels (var_grid v)) (var_dims v)) = Inr cs \<and>
              length cs = length (zip (mesh_labels (var_grid v)) (var_dims v)) \<and>
              (\<forall>i < length cs.
                 lookup_get (build_lookup v) (fst (zip (mesh_labels (var_grid v)) (var_dims v) ! i))
                   (snd (zip (mesh_labels (var_grid v)) (var_dims v) ! i)) = Inr (cs ! i))"
proof -
  let ?ps = "zip (mesh_labels (var_grid v)) (var_dims v)"
  have ok: "\<forall>p \<in> set ?ps. \<exists>c. lookup_get (build_lookup v) (fst p) (snd p) = Inr c"
    using assms by (auto simp: lookup_get_build_lookup)
  have "\<And>ps. \<forall>p \<in> set ps. \<exists>c. lookup_get (build_lookup v) (fst p) (snd p) = Inr c \<Longrightarrow>
          \<exists>cs. run_var_coords (build_lookup v) ps = Inr cs"
  proof -
    fix ps
    show "\<forall>p \<in> set ps. \<exists>c. lookup_get (build_lookup v) (fst p) (snd p) = Inr c \<Longrightarrow>
          \<exists>cs. run_var_coords (build_lookup v) ps = Inr cs"
      by (induction ps) (auto split: sum.splits)
  qed
  then obtain cs where cs: "run_var_coords (build_lookup v) ?ps = Inr cs"
    using ok by blast
  then show ?thesis
    using run_var_coords_Inr[of "build_lookup v" ?ps cs] by auto
qed

subsection \<open>The first lookup that fails\<close>














subsection \<open>Keys of the coordinates\<close>

lemma distinct_dict_update:
  "distinct (map fst d) \<Longrightarrow> distinct (map fst (dict_update d xs))"
  by (induction xs arbitrary: d) (auto simp: distinct_update)

lemma full_name_eq_iff: "full_name l b1 = full_name l b2 \<longleftrightarrow> b1 = b2"
  by (simp add: full_name_def)

lemma open_sdf_dataset_Inr:
  assumes "open_sdf_dataset data dv = Inr ds"
  shows "\<exists>data1 a rest. drop_requested dv data = Inr data1 \<and>
           global_metadata data1 = Inr (a, rest) \<and>
           make_dataset (convert_blocks a rest) = Inr ds"
  using assms
  by (auto simp: open_sdf_dataset_def convert_def split: sum.splits prod.splits)

subsection \<open>The exclusion list\<close>

lemma map_of_None_keys: "map_of d k = None \<longleftrightarrow> k \<notin> fst ` set d"
  by (simp add: map_of_eq_None_iff)

lemma delete_filter: "AList.delete k d = filter (\<lambda>kv. fst kv \<noteq> k) d"
  by (induction d) auto

lemma pop_all_present:
  "distinct vs \<Longrightarrow> set vs \<subseteq> fst ` set d \<Longrightarrow>
   pop_all vs d = Inr (filter (\<lambda>kv. fst kv \<notin> set vs) d)"
proof (induction vs arbitrary: d)
  case Nil
  then show ?case by simp
next
  case (Cons v vs)
  from Cons.prems obtain x where x: "map_of d v = Some x"
    by (cases "map_of d v") (auto simp: map_of_None_keys)
  have sub: "set vs \<subseteq> fst ` set (AList.delete v d)"
  proof
    fix w assume w: "w \<in> set vs"
    then have "w \<noteq> v" using Cons.prems(1) by auto
    moreover obtain b where "(w, b) \<in> set d" using w Cons.prems(2) by auto
    ultimately have "(w, b) \<in> set (AList.delete v d)" by (simp add: delete_filter)
    then show "w \<in> fst ` set (AList.delete v d)" by force
  qed
  have "pop_all (v # vs) d = pop_all vs (AList.delete v d)"
    by (simp add: pop_def x)
  also have "\<dots> = Inr (filter (\<lambda>kv. fst kv \<notin> set vs) (AList.delete v d))"
    using Cons.IH[OF _ sub] Cons.prems(1) by simp
  also have "filter (\<lambda>kv. fst kv \<notin> set vs) (AList.delete v d) =
             filter (\<lambda>kv. fst kv \<notin> set (v # vs)) d"
    by (auto simp: delete_filter intro: filter_cong)
  finally show ?case .
qed

lemma pop_all_append:
  "pop_all (xs @ ys) d = (case pop_all xs d of Inl e \<Rightarrow> Inl e | Inr d' \<Rightarrow> pop_all ys d')"
  by (induction xs arbitrary: d) (auto split: sum.splits)

lemma pop_all_fails:
  assumes "distinct pre" and "set pre \<subseteq> fst ` set d"
    and "n \<notin> fst ` set d \<or> n \<in> set pre"
  shows "pop_all (pre @ n # post) d = Inl (KeyError (StrKey n))"
proof -
  have "n \<notin> fst ` set (filter (\<lambda>kv. fst kv \<notin> set pre) d)"
    using assms(3) by auto
  then have "map_of (filter (\<lambda>kv. fst kv \<notin> set pre) d) n = None"
    by (simp add: map_of_None_keys)
  then show ?thesis
    by (simp add: pop_all_append pop_all_present[OF assms(1,2)] pop_def)
qed

lemma pop_all_keys: "pop_all vs d = Inr d' \<Longrightarrow> fst ` set d' \<inter> set vs = {}"
proof (induction vs arbitrary: d)
  case Nil
  then show ?case by simp
next
  case (Cons v vs)
  from Cons.prems obtain x where x: "map_of d v = Some x"
    and r: "pop_all vs (AList.delete v d) = Inr d'"
    by (auto simp: pop_def split: option.splits)
  have "fst ` set d' \<inter> set vs = {}" using Cons.IH[OF r] .
  moreover have "fst ` set d' \<subseteq> fst ` set (AList.delete v d)"
    using r
  proof (induction vs arbitrary: d d')
    case Nil
    then show ?case by simp
  next
    case (Cons w ws)
    from Cons.prems obtain y where
      r2: "pop_all ws (AList.delete w (AList.delete v d)) = Inr d'"
      by (auto simp: pop_def split: option.splits)
    have "fst ` set d' \<subseteq> fst ` set (AList.delete v (AList.delete w d))"
      using Cons.IH[of "AList.delete w d" d'] r2 by (simp add: delete_twist)
    then show ?case by (auto simp: delete_filter)
  qed
  then have "v \<notin> fst ` set d'" by (auto simp: delete_filter)
  ultimately show ?case by auto
qed

section \<open>The coordinates of a mesh\<close>

text \<open>
  Claim C7.  The mesh branch makes one entry for each axis that has a label, a coordinate
  array and a unit.  The entry of axis \<open>i\<close> is stored under the name made of the label of
  the axis, an underscore and the base name of the mesh; it holds that name as its
  dimension, coordinate array \<open>i\<close> as its data, and the attributes \<^verbatim>\<open>long_name\<close>, the
  label, and \<^verbatim>\<open>units\<close>, unit \<open>i\<close>.  The base name is what follows the first \<^verbatim>\<open>/\<close> of the
  name under which the mesh is stored, or the whole name when it has no \<^verbatim>\<open>/\<close>.
\<close>

theorem mesh_coords_entries:
  "length (mesh_coords key m) =
     min (length (mesh_labels m)) (min (length (mesh_data m)) (length (mesh_units m))) \<and>
   (\<forall>i < length (mesh_coords key m).
      mesh_coords key m ! i =
        (mesh_labels m ! i @ ''_'' @ base_name_of key,
         (mesh_labels m ! i @ ''_'' @ base_name_of key, mesh_data m ! i,
          [(''long_name'', mesh_labels m ! i), (''units'', mesh_units m ! i)]))) \<and>
   (\<forall>a b. CHR ''/'' \<notin> set a \<longrightarrow> base_name_of (a @ ''/'' @ b) = b) \<and>
   (CHR ''/'' \<notin> set key \<longrightarrow> base_name_of key = key)"
  using length_mesh_coords[of key m] nth_mesh_coords[of _ key m]
  by (simp add: full_name_def base_name_of_plain base_name_of_path)

theorem mesh_coords_entries_witness:
  "0 < length (mesh_coords ''Grid/Grid_mid'' ex_grid_mid) \<and>
   mesh_coords ''Grid/Grid_mid'' ex_grid_mid ! 0 =
     (''X_Grid_mid'', (''X_Grid_mid'', 1, [(''long_name'', ''X''), (''units'', ''m'')])) \<and>
   CHR ''/'' \<notin> set ''Grid'' \<and> base_name_of ''Grid/Grid_mid'' = ''Grid_mid'' \<and>
   CHR ''/'' \<notin> set ''Grid_mid'' \<and> base_name_of ''Grid_mid'' = ''Grid_mid''"
proof -
  note t = mesh_coords_entries[of "''Grid/Grid_mid''" ex_grid_mid]
  have len: "length (mesh_coords ''Grid/Grid_mid'' ex_grid_mid) = 1"
    using t by (simp add: ex_grid_mid_def)
  have slash: "CHR ''/'' \<notin> set ''Grid''" by simp
  have base: "base_name_of ''Grid/Grid_mid'' = ''Grid_mid''"
    using t slash by (metis append_Cons append_Nil)
  have entry: "mesh_coords ''Grid/Grid_mid'' ex_grid_mid ! 0 =
     (''X_Grid_mid'', (''X_Grid_mid'', 1, [(''long_name'', ''X''), (''units'', ''m'')]))"
    using t len base by (simp add: ex_grid_mid_def)
  have plain: "base_name_of ''Grid_mid'' = ''Grid_mid''"
    using mesh_coords_entries[of "''Grid_mid''" ex_grid_mid] by simp
  show ?thesis using len slash base entry plain by simp
qed

section \<open>The size lookup of a variable\<close>

text \<open>
  Claim C4.  The table built for a variable is filled from the primary mesh first and from
  the mid (staggered) mesh second: a label and size that the mid mesh has read as the mid
  mesh's coordinate name, also when the primary mesh has the same pair; a pair that only the
  primary mesh has reads as the primary mesh's name; any other pair raises \<^verbatim>\<open>KeyError\<close>.
  For the variable with 128 values along \<open>X\<close>, a primary mesh with 129 points and a mid
  mesh with 128, the table gives the mid mesh's coordinate, \<^verbatim>\<open>X_Grid_mid\<close>, and so does the
  dataset read from a file that holds this variable only.  But the table of a variable is
  read only if no other variable block follows: when a variable on a mesh named
  \<^verbatim>\<open>Grid/P\<close> with 128 points follows, the axis of the example variable is given the name
  \<^verbatim>\<open>X_P\<close>, and when a variable on a mesh with 64 points follows, the read raises
  \<^verbatim>\<open>KeyError(128)\<close>.
\<close>

theorem staggered_lookup_late_bound:
  "lookup_get (build_lookup v) l s =
     (if (s, l) \<in> set (zip (mesh_dims (var_grid_mid v)) (mesh_labels (var_grid_mid v)))
      then Inr (full_name l (base_name_of (mesh_name (var_grid_mid v))))
      else if (s, l) \<in> set (zip (mesh_dims (var_grid v)) (mesh_labels (var_grid v)))
      then Inr (full_name l (base_name_of (mesh_name (var_grid v))))
      else Inl (KeyError (IntKey s))) \<and>
   lookup_get (build_lookup ex_var) ''X'' 128 = Inr ''X_Grid_mid'' \<and>
   map_option fst
     (map_of (case open_sdf_dataset ex_file None of Inr ds \<Rightarrow> ds_data_vars ds | Inl e \<Rightarrow> [])
        ''Electric Field/Ex'') = Some [''X_Grid_mid''] \<and>
   open_sdf_dataset ex_then_p_file None =
     Inr \<lparr>ds_data_vars = [(''Electric Field/Ex'', ([''X_P''], 5, [(''units'', ''V/m'')])),
                          (''Fluid/P'', ([''X_P''], 7, [(''units'', ''Pa'')]))],
          ds_attrs = [],
          ds_coords = [(''X_Grid'', (''X_Grid'', 0, [(''long_name'', ''X''), (''units'', ''m'')])),
                       (''X_Grid_mid'', (''X_Grid_mid'', 1, [(''long_name'', ''X''), (''units'', ''m'')])),
                       (''X_P'', (''X_P'', 2, [(''long_name'', ''X''), (''units'', ''m'')]))]\<rparr> \<and>
   open_sdf_dataset ex_then_h_file None = Inl (KeyError (IntKey 128))"
proof (intro conjI)
  show "lookup_get (build_lookup ex_var) ''X'' 128 = Inr ''X_Grid_mid''"
    by (simp add: model_defs ex_var_def ex_grid_def ex_grid_mid_def)
  show "map_option fst
     (map_of (case open_sdf_dataset ex_file None of Inr ds \<Rightarrow> ds_data_vars ds | Inl e \<Rightarrow> [])
        ''Electric Field/Ex'') = Some [''X_Grid_mid'']"
    by (simp add: model_defs ex_file_def ex_var_def ex_grid_def ex_grid_mid_def)
  show "open_sdf_dataset ex_then_p_file None =
     Inr \<lparr>ds_data_vars = [(''Electric Field/Ex'', ([''X_P''], 5, [(''units'', ''V/m'')])),
                          (''Fluid/P'', ([''X_P''], 7, [(''units'', ''Pa'')]))],
          ds_attrs = [],
          ds_coords = [(''X_Grid'', (''X_Grid'', 0, [(''long_name'', ''X''), (''units'', ''m'')])),
                       (''X_Grid_mid'', (''X_Grid_mid'', 1, [(''long_name'', ''X''), (''units'', ''m'')])),
                       (''X_P'', (''X_P'', 2, [(''long_name'', ''X''), (''units'', ''m'')]))]\<rparr>"
    by (simp add: model_defs ex_then_p_file_def ex_var_def ex_grid_def ex_grid_mid_def
          var_p_def grid_p_def)
  show "open_sdf_dataset ex_then_h_file None = Inl (KeyError (IntKey 128))"
    by (simp add: model_defs ex_then_h_file_def ex_var_def ex_grid_def ex_grid_mid_def
          var_h_def grid_h_def)
qed (rule lookup_get_build_lookup)

section \<open>The probe\<close>

text \<open>
  Claim C6.  \<^verbatim>\<open>guess_can_open\<close> answers true in two cases only: the magic number was read
  and its first four bytes are \<^verbatim>\<open>SDF1\<close>; or no magic number could be read and the
  extension of the file name, as \<^verbatim>\<open>os.path.splitext\<close> gives it, is \<^verbatim>\<open>.sdf\<close> or \<^verbatim>\<open>.SDF\<close>.
\<close>

theorem guess_can_open_iff:
  "guess_can_open magic_number f \<longleftrightarrow>
     (\<exists>m. magic_number = Some m \<and> take 4 m = ''SDF1'') \<or>
     (magic_number = None \<and>
      (\<exists>p. f = Path p \<and> (snd (splitext p) = ''.sdf'' \<or> snd (splitext p) = ''.SDF'')))"
  by (cases magic_number; cases f) (auto simp: guess_can_open_def startswith_def numeral_eq_Suc)

text \<open>
  The comparison is by case, a name made of the extension alone has no extension, and a
  magic number that was read decides alone.
\<close>

lemma guess_can_open_examples:
  "guess_can_open None (Path ''run/0001.sdf'')"
  "guess_can_open None (Path ''0001.SDF'')"
  "\<not> guess_can_open None (Path ''0001.Sdf'')"
  "\<not> guess_can_open None (Path ''.sdf'')"
  "\<not> guess_can_open (Some ''HDF5abcd'') (Path ''0001.sdf'')"
  "guess_can_open (Some ''SDF1abcd'') (Path ''0001.dat'')"
  "\<not> guess_can_open (Some ''SDF'') (Path ''0001.sdf'')"
  "\<not> guess_can_open None NotAStrPath"
  by (simp_all add: guess_can_open_def startswith_def splitext_def rfind_def Let_def)

section \<open>Blocks whose name starts with CPU\<close>

text \<open>
  Claim C8.  The blocks whose name starts with \<^verbatim>\<open>CPU\<close> leave no trace: once the
  exclusions are done, the result (a dataset or an error) is the one computed from the
  mapping without these blocks, whatever their kind, and no data variable of the dataset
  has such a name.
\<close>

theorem cpu_blocks_ignored:
  "open_sdf_dataset data drop_variables =
     (case drop_requested drop_variables data of
        Inl e \<Rightarrow> Inl e
      | Inr data1 \<Rightarrow> convert (filter (\<lambda>kv. \<not> startswith (fst kv) ''CPU'') data1)) \<and>
   open_sdf_dataset data None =
     open_sdf_dataset (filter (\<lambda>kv. \<not> startswith (fst kv) ''CPU'') data) None \<and>
   (\<forall>ds. open_sdf_dataset data drop_variables = Inr ds \<longrightarrow>
      (\<forall>k \<in> fst ` set (ds_data_vars ds). \<not> startswith k ''CPU''))"
proof (intro conjI allI impI)
  show "open_sdf_dataset data drop_variables =
     (case drop_requested drop_variables data of
        Inl e \<Rightarrow> Inl e
      | Inr data1 \<Rightarrow> convert (filter (\<lambda>kv. \<not> startswith (fst kv) ''CPU'') data1))"
    by (simp add: open_sdf_dataset_def convert_visible[unfolded visible_def] split: sum.splits)
  show "open_sdf_dataset data None =
     open_sdf_dataset (filter (\<lambda>kv. \<not> startswith (fst kv) ''CPU'') data) None"
    by (simp add: open_sdf_dataset_def drop_requested_def convert_visible[unfolded visible_def])
next
  fix ds
  assume "open_sdf_dataset data drop_variables = Inr ds"
  then obtain data1 a rest where
    "global_metadata data1 = Inr (a, rest)" and mk: "make_dataset (convert_blocks a rest) = Inr ds"
    by (auto simp: open_sdf_dataset_def convert_def split: sum.splits)
  have "fst ` set (ds_data_vars ds) \<subseteq> fst ` set (visible rest)"
    using make_dataset_keys[OF mk] variables_of_keys[of rest] by simp
  then show "\<forall>k \<in> fst ` set (ds_data_vars ds). \<not> startswith k ''CPU''"
    by (auto simp: visible_def)
qed

theorem cpu_blocks_ignored_witness:
  "open_sdf_dataset cpu_file None =
     Inr \<lparr>ds_data_vars = [(''Electric Field/Ex'', ([''X_Grid_mid''], 5, [(''units'', ''V/m'')]))],
          ds_attrs = [(''Wall-time'', 9)],
          ds_coords = [(''X_Grid_mid'',
                        (''X_Grid_mid'', 1, [(''long_name'', ''X''), (''units'', ''m'')]))]\<rparr> \<and>
   \<not> startswith ''Electric Field/Ex'' ''CPU''"
proof -
  note t = cpu_blocks_ignored[of cpu_file None]
  have "open_sdf_dataset cpu_file None =
          open_sdf_dataset (filter (\<lambda>kv. \<not> startswith (fst kv) ''CPU'') cpu_file) None"
    using t by blast
  also have "filter (\<lambda>kv. \<not> startswith (fst kv) ''CPU'') cpu_file =
      [(''Grid/Grid_mid'', BlockPlainMesh ex_grid_mid), (''Wall-time'', BlockConstant 9),
       (''Electric Field/Ex'', BlockPlainVariable ex_var)]"
    by (simp add: cpu_file_def startswith_def)
  also have "open_sdf_dataset \<dots> None =
     Inr \<lparr>ds_data_vars = [(''Electric Field/Ex'', ([''X_Grid_mid''], 5, [(''units'', ''V/m'')]))],
          ds_attrs = [(''Wall-time'', 9)],
          ds_coords = [(''X_Grid_mid'',
                        (''X_Grid_mid'', 1, [(''long_name'', ''X''), (''units'', ''m'')]))]\<rparr>"
    by (simp add: model_defs ex_var_def ex_grid_def ex_grid_mid_def)
  finally have r: "open_sdf_dataset cpu_file None =
     Inr \<lparr>ds_data_vars = [(''Electric Field/Ex'', ([''X_Grid_mid''], 5, [(''units'', ''V/m'')]))],
          ds_attrs = [(''Wall-time'', 9)],
          ds_coords = [(''X_Grid_mid'',
                        (''X_Grid_mid'', 1, [(''long_name'', ''X''), (''units'', ''m'')]))]\<rparr>" .
  show ?thesis using t r by auto
qed

section \<open>The metadata blocks\<close>

text \<open>
  Claim C9.  When \<^verbatim>\<open>Header\<close> and \<^verbatim>\<open>Run_info\<close> are present they are merged into the
  attributes, \<^verbatim>\<open>Header\<close> first and \<^verbatim>\<open>Run_info\<close> second, before the loop adds the
  constants.  So an attribute reads as the constant block of that name if the loop met one,
  else as the value in \<^verbatim>\<open>Run_info\<close>, else as the value in \<^verbatim>\<open>Header\<close>; and neither
  name is a data variable of the dataset.  With \<^verbatim>\<open>Header = {"time": 1.0}\<close> and
  \<^verbatim>\<open>Run_info = {"time": 2.0}\<close> the attribute \<^verbatim>\<open>time\<close> is 2.0.
\<close>

theorem header_then_run_info:
  assumes "distinct (map fst data)" and "distinct (map fst h)" and "distinct (map fst r)"
    and "map_of data ''Header'' = Some (Dict h)"
    and "map_of data ''Run_info'' = Some (Dict r)"
    and "open_sdf_dataset data None = Inr ds"
  shows "map_of (ds_attrs ds) k =
           (case map_of (const_writes data) k of
              Some c \<Rightarrow> Some c
            | None \<Rightarrow> (case map_of r k of Some v \<Rightarrow> Some v | None \<Rightarrow> map_of h k)) \<and>
         ''Header'' \<notin> fst ` set (ds_data_vars ds) \<and>
         ''Run_info'' \<notin> fst ` set (ds_data_vars ds)"
proof -
  let ?rest = "AList.delete ''Run_info'' (AList.delete ''Header'' data)"
  let ?a = "dict_update (dict_update [] h) r"
  have gm: "global_metadata data = Inr (?a, ?rest)"
    using assms(4,5) by (simp add: global_metadata_eq)
  have mk: "make_dataset (convert_blocks ?a ?rest) = Inr ds"
    using assms(6) gm by (simp add: open_sdf_dataset_def drop_requested_def convert_def)
  have cw: "const_writes ?rest = const_writes data"
    using const_writes_not_dict[OF assms(1,4)] const_writes_not_dict[OF assms(1,5)]
    by (simp add: const_writes_delete filter_absent_key)
  have "ds_attrs ds = dict_update ?a (const_writes data)"
    using make_dataset_attrs[OF mk] cw by simp
  then have "map_of (ds_attrs ds) = (map_of h ++ map_of r) ++ map_of (const_writes data)"
    using assms(1,2,3)
    by (simp add: map_of_dict_update map_of_rev_distinct const_writes_distinct)
  then have attrs: "map_of (ds_attrs ds) k =
           (case map_of (const_writes data) k of
              Some c \<Rightarrow> Some c
            | None \<Rightarrow> (case map_of r k of Some v \<Rightarrow> Some v | None \<Rightarrow> map_of h k))"
    by (simp add: map_add_def split: option.splits)
  have "fst ` set (ds_data_vars ds) = fst ` set (variables_of ?rest)"
    by (rule make_dataset_keys[OF mk])
  then have "''Header'' \<notin> fst ` set (ds_data_vars ds)"
    and "''Run_info'' \<notin> fst ` set (ds_data_vars ds)"
    by (auto simp: variables_of_delete)
  with attrs show ?thesis by simp
qed

theorem header_then_run_info_witness:
  "distinct (map fst meta_file) \<and> distinct (map fst [(''time'', 1::real)]) \<and>
   distinct (map fst [(''time'', 2::real)]) \<and>
   map_of meta_file ''Header'' = Some (Dict [(''time'', 1)]) \<and>
   map_of meta_file ''Run_info'' = Some (Dict [(''time'', 2)]) \<and>
   open_sdf_dataset meta_file None =
     Inr \<lparr>ds_data_vars = [], ds_attrs = [(''time'', 2)], ds_coords = []\<rparr> \<and>
   map_of (ds_attrs \<lparr>ds_data_vars = [], ds_attrs = [(''time'', 2::real)], ds_coords = []\<rparr>) ''time''
     = Some 2"
proof -
  have d: "distinct (map fst meta_file)" by (simp add: meta_file_def)
  have h: "map_of meta_file ''Header'' = Some (Dict [(''time'', 1)])"
    by (simp add: meta_file_def)
  have r: "map_of meta_file ''Run_info'' = Some (Dict [(''time'', 2)])"
    by (simp add: meta_file_def)
  have ok: "open_sdf_dataset meta_file None =
     Inr \<lparr>ds_data_vars = [], ds_attrs = [(''time'', 2)], ds_coords = []\<rparr>"
    by (simp add: model_defs meta_file_def)
  have "map_of (ds_attrs \<lparr>ds_data_vars = [], ds_attrs = [(''time'', 2::real)], ds_coords = []\<rparr>)
          ''time'' = Some 2"
    using header_then_run_info[OF d _ _ h r ok, of "''time''"]
    by (simp add: const_writes_def visible_def meta_file_def startswith_def)
  then show ?thesis using d h r ok by simp
qed

text \<open>
  Claim C10.  A missing \<^verbatim>\<open>Header\<close> or \<^verbatim>\<open>Run_info\<close> raises nothing and adds nothing:
  the attributes start from the block that is there, or empty; the only error the read can
  then end in is the \<^verbatim>\<open>KeyError\<close> of a size lookup, and a file without variable blocks
  always gives a dataset.
\<close>

theorem missing_metadata_blocks:
  "(map_of data ''Header'' = None \<and> map_of data ''Run_info'' = None \<longrightarrow>
      open_sdf_dataset data None = make_dataset (convert_blocks [] data)) \<and>
   (map_of data ''Header'' = None \<and> map_of data ''Run_info'' = Some (Dict r) \<longrightarrow>
      open_sdf_dataset data None =
        make_dataset (convert_blocks (dict_update [] r) (AList.delete ''Run_info'' data))) \<and>
   (map_of data ''Header'' = Some (Dict h) \<and> map_of data ''Run_info'' = None \<longrightarrow>
      open_sdf_dataset data None =
        make_dataset (convert_blocks (dict_update [] h) (AList.delete ''Header'' data))) \<and>
   ((map_of data ''Header'' = None \<or> map_of data ''Run_info'' = None) \<and>
    (\<forall>b. map_of data ''Header'' = Some b \<or> map_of data ''Run_info'' = Some b \<longrightarrow>
         (\<exists>d. b = Dict d)) \<longrightarrow>
      (\<forall>e. open_sdf_dataset data None = Inl e \<longrightarrow> (\<exists>n. e = KeyError (IntKey n))) \<and>
      (variables_of data = [] \<longrightarrow> (\<exists>ds. open_sdf_dataset data None = Inr ds)))"
proof (intro conjI impI allI)
  assume "map_of data ''Header'' = None \<and> map_of data ''Run_info'' = None"
  then show "open_sdf_dataset data None = make_dataset (convert_blocks [] data)"
    by (simp add: open_sdf_dataset_def drop_requested_def convert_def global_metadata_eq)
next
  assume "map_of data ''Header'' = None \<and> map_of data ''Run_info'' = Some (Dict r)"
  then show "open_sdf_dataset data None =
        make_dataset (convert_blocks (dict_update [] r) (AList.delete ''Run_info'' data))"
    by (simp add: open_sdf_dataset_def drop_requested_def convert_def global_metadata_eq)
next
  assume "map_of data ''Header'' = Some (Dict h) \<and> map_of data ''Run_info'' = None"
  then show "open_sdf_dataset data None =
        make_dataset (convert_blocks (dict_update [] h) (AList.delete ''Header'' data))"
    by (simp add: open_sdf_dataset_def drop_requested_def convert_def global_metadata_eq)
next
  fix e
  assume a: "(map_of data ''Header'' = None \<or> map_of data ''Run_info'' = None) \<and>
    (\<forall>b. map_of data ''Header'' = Some b \<or> map_of data ''Run_info'' = Some b \<longrightarrow>
         (\<exists>d. b = Dict d))"
    and e: "open_sdf_dataset data None = Inl e"
  from a obtain a0 rest where "global_metadata data = Inr (a0, rest)"
    using global_metadata_ok[of data] by blast
  then have "make_dataset (convert_blocks a0 rest) = Inl e"
    using e by (simp add: open_sdf_dataset_def drop_requested_def convert_def)
  then show "\<exists>n. e = KeyError (IntKey n)"
    by (rule make_dataset_error)
next
  assume a: "(map_of data ''Header'' = None \<or> map_of data ''Run_info'' = None) \<and>
    (\<forall>b. map_of data ''Header'' = Some b \<or> map_of data ''Run_info'' = Some b \<longrightarrow>
         (\<exists>d. b = Dict d))"
    and v: "variables_of data = []"
  from a obtain a0 rest where gm: "global_metadata data = Inr (a0, rest)"
    using global_metadata_ok[of data] by blast
  have "variables_of rest = []"
    using global_metadata_rest[OF gm] v by (simp add: variables_of_delete)
  then obtain ds where "make_dataset (convert_blocks a0 rest) = Inr ds"
    using make_dataset_no_variables by blast
  then show "\<exists>ds. open_sdf_dataset data None = Inr ds"
    using gm by (simp add: open_sdf_dataset_def drop_requested_def convert_def)
qed

theorem missing_metadata_blocks_witness:
  "map_of no_meta_file ''Header'' = None \<and> map_of no_meta_file ''Run_info'' = None \<and>
   open_sdf_dataset no_meta_file None =
     Inr \<lparr>ds_data_vars = [], ds_attrs = [(''Wall-time'', 9)], ds_coords = []\<rparr>"
proof -
  have h: "map_of no_meta_file ''Header'' = None" and r: "map_of no_meta_file ''Run_info'' = None"
    by (simp_all add: no_meta_file_def)
  have "open_sdf_dataset no_meta_file None = make_dataset (convert_blocks [] no_meta_file)"
    using missing_metadata_blocks[of no_meta_file] h r by blast
  also have "\<dots> = Inr \<lparr>ds_data_vars = [], ds_attrs = [(''Wall-time'', 9)], ds_coords = []\<rparr>"
    by (simp add: model_defs no_meta_file_def)
  finally show ?thesis using h r by simp
qed

section \<open>Variables that cannot be resolved\<close>




section \<open>The table a variable is resolved against\<close>

text \<open>
  Claim C5.  Against its own table, variable \<open>a\<close> resolves to the coordinate of its own
  mesh, \<^verbatim>\<open>X_A\<close>.  But the generators run after the loop, against the table of the last
  variable block: followed by \<open>b\<close>, whose mesh has another size, the read of the file
  raises \<^verbatim>\<open>KeyError(10)\<close>; followed by \<open>c\<close>, whose mesh has the same size, \<open>a\<close> is
  given the coordinate of the mesh of \<open>c\<close>, \<^verbatim>\<open>X_C\<close>.
\<close>

theorem late_binding_of_lookup:
  "run_var_coords (build_lookup var_a) (zip (mesh_labels (var_grid var_a)) (var_dims var_a)) =
     Inr [''X_A''] \<and>
   open_sdf_dataset two_grid_file None = Inl (KeyError (IntKey 10)) \<and>
   open_sdf_dataset same_size_file None =
     Inr \<lparr>ds_data_vars = [(''a'', ([''X_C''], 1, [(''units'', ''K'')])),
                          (''c'', ([''X_C''], 3, [(''units'', ''K'')]))],
          ds_attrs = [], ds_coords = []\<rparr>"
  by (simp add: model_defs two_grid_file_def same_size_file_def var_a_def var_b_def var_c_def
        grid_a_def grid_b_def grid_c_def)

section \<open>The names of the coordinates\<close>

text \<open>
  Claim C2, as the code has it.  The name of a coordinate is made of the axis label and of
  the base name of the mesh, which is the name of the mesh without what stands before its
  first \<^verbatim>\<open>/\<close>.  So two entries with the same axis label are given the same name exactly
  when the two meshes have the same base name; two meshes that differ before the first
  \<^verbatim>\<open>/\<close> only are not told apart.  The coordinates of the dataset are a \<^verbatim>\<open>dict\<close>: its keys
  are distinct, and a name reads as the last entry that the loop wrote under it, an entry
  written under a name that is already there replacing the earlier one.
\<close>

theorem shared_label_names:
  "(i < length (mesh_coords k1 m1) \<and> j < length (mesh_coords k2 m2) \<and>
    mesh_labels m1 ! i = mesh_labels m2 ! j \<longrightarrow>
      (fst (mesh_coords k1 m1 ! i) = fst (mesh_coords k2 m2 ! j) \<longleftrightarrow>
       base_name_of k1 = base_name_of k2)) \<and>
   (open_sdf_dataset data drop_variables = Inr ds \<longrightarrow> distinct (map fst (ds_coords ds))) \<and>
   (drop_requested drop_variables data = Inr data1 \<and> global_metadata data1 = Inr (a, rest) \<and>
    open_sdf_dataset data drop_variables = Inr ds \<longrightarrow>
      map_of (ds_coords ds) n = map_of (rev (coord_writes rest)) n)"
proof (intro conjI impI)
  assume "i < length (mesh_coords k1 m1) \<and> j < length (mesh_coords k2 m2) \<and>
    mesh_labels m1 ! i = mesh_labels m2 ! j"
  then show "fst (mesh_coords k1 m1 ! i) = fst (mesh_coords k2 m2 ! j) \<longleftrightarrow>
       base_name_of k1 = base_name_of k2"
    by (simp add: nth_mesh_coords full_name_eq_iff)
next
  assume "open_sdf_dataset data drop_variables = Inr ds"
  then obtain a' rest' where "make_dataset (convert_blocks a' rest') = Inr ds"
    using open_sdf_dataset_Inr by blast
  then have "ds_coords ds = dict_update [] (coord_writes rest')"
    by (rule make_dataset_coords)
  then show "distinct (map fst (ds_coords ds))"
    by (simp add: distinct_dict_update)
next
  assume h: "drop_requested drop_variables data = Inr data1 \<and>
    global_metadata data1 = Inr (a, rest) \<and> open_sdf_dataset data drop_variables = Inr ds"
  then have h1: "drop_requested drop_variables data = Inr data1"
    and h2: "global_metadata data1 = Inr (a, rest)"
    and h3: "open_sdf_dataset data drop_variables = Inr ds"
    by simp_all
  have "make_dataset (convert_blocks a rest) = Inr ds"
    using h3 by (simp add: open_sdf_dataset_def convert_def h1 h2)
  then have "ds_coords ds = dict_update [] (coord_writes rest)"
    by (rule make_dataset_coords)
  then show "map_of (ds_coords ds) n = map_of (rev (coord_writes rest)) n"
    by (simp add: map_of_dict_update)
qed

text \<open>
  The meshes \<^verbatim>\<open>Fluid/Mesh\<close> and \<^verbatim>\<open>Field/Mesh\<close> both have an axis \<open>X\<close>, and both entries
  are given the name \<^verbatim>\<open>X_Mesh\<close>: the dataset holds the second one only.  The meshes
  \<^verbatim>\<open>Grid/X_Grid\<close> and \<^verbatim>\<open>Grid_mid/X_Grid_mid\<close> with an axis \<open>X\<close> give the names
  \<^verbatim>\<open>X_X_Grid\<close> and \<^verbatim>\<open>X_X_Grid_mid\<close>.
\<close>

theorem shared_label_names_counterexample:
  "map fst (mesh_coords ''Fluid/Mesh'' fluid_mesh) = [''X_Mesh''] \<and>
   map fst (mesh_coords ''Field/Mesh'' field_mesh) = [''X_Mesh''] \<and>
   open_sdf_dataset same_base_file None =
     Inr \<lparr>ds_data_vars = [], ds_attrs = [],
          ds_coords = [(''X_Mesh'', (''X_Mesh'', 1, [(''long_name'', ''X''), (''units'', ''m'')]))]\<rparr> \<and>
   map fst (mesh_coords ''Grid/X_Grid'' x_grid) = [''X_X_Grid''] \<and>
   map fst (mesh_coords ''Grid_mid/X_Grid_mid'' x_grid_mid) = [''X_X_Grid_mid'']"
  by (simp add: model_defs same_base_file_def fluid_mesh_def field_mesh_def x_grid_def
        x_grid_mid_def)

theorem shared_label_names_witness:
  "0 < length (mesh_coords ''Grid/X_Grid'' x_grid) \<and>
   0 < length (mesh_coords ''Grid_mid/X_Grid_mid'' x_grid_mid) \<and>
   mesh_labels x_grid ! 0 = mesh_labels x_grid_mid ! 0 \<and>
   base_name_of ''Grid/X_Grid'' \<noteq> base_name_of ''Grid_mid/X_Grid_mid'' \<and>
   fst (mesh_coords ''Grid/X_Grid'' x_grid ! 0) \<noteq>
     fst (mesh_coords ''Grid_mid/X_Grid_mid'' x_grid_mid ! 0) \<and>
   open_sdf_dataset x_grid_file None =
     Inr \<lparr>ds_data_vars = [], ds_attrs = [],
          ds_coords = [(''X_X_Grid'', (''X_X_Grid'', 0, [(''long_name'', ''X''), (''units'', ''m'')])),
                       (''X_X_Grid_mid'', (''X_X_Grid_mid'', 1, [(''long_name'', ''X''), (''units'', ''m'')]))]\<rparr> \<and>
   distinct (map fst (ds_coords
     \<lparr>ds_data_vars = [], ds_attrs = ([] :: (string, real) dict),
      ds_coords = [(''X_X_Grid'', (''X_X_Grid'', 0 :: real, [(''long_name'', ''X''), (''units'', ''m'')])),
                   (''X_X_Grid_mid'', (''X_X_Grid_mid'', 1, [(''long_name'', ''X''), (''units'', ''m'')]))]\<rparr>)) \<and>
   drop_requested None same_base_file = Inr same_base_file \<and>
   global_metadata same_base_file = Inr ([], same_base_file) \<and>
   open_sdf_dataset same_base_file None =
     Inr \<lparr>ds_data_vars = [], ds_attrs = [],
          ds_coords = [(''X_Mesh'', (''X_Mesh'', 1, [(''long_name'', ''X''), (''units'', ''m'')]))]\<rparr> \<and>
   coord_writes same_base_file =
     [(''X_Mesh'', (''X_Mesh'', 0, [(''long_name'', ''X''), (''units'', ''m'')])),
      (''X_Mesh'', (''X_Mesh'', 1, [(''long_name'', ''X''), (''units'', ''m'')]))] \<and>
   map_of (rev (coord_writes same_base_file)) ''X_Mesh'' =
     Some (''X_Mesh'', 1, [(''long_name'', ''X''), (''units'', ''m'')])"
proof -
  let ?ds = "\<lparr>ds_data_vars = [], ds_attrs = ([] :: (string, real) dict),
      ds_coords = [(''X_X_Grid'', (''X_X_Grid'', 0 :: real, [(''long_name'', ''X''), (''units'', ''m'')])),
                   (''X_X_Grid_mid'', (''X_X_Grid_mid'', 1, [(''long_name'', ''X''), (''units'', ''m'')]))]\<rparr>"
  let ?ds2 = "\<lparr>ds_data_vars = [], ds_attrs = ([] :: (string, real) dict),
      ds_coords = [(''X_Mesh'', (''X_Mesh'', 1 :: real, [(''long_name'', ''X''), (''units'', ''m'')]))]\<rparr>"
  have h1: "0 < length (mesh_coords ''Grid/X_Grid'' x_grid)"
    by (simp add: length_mesh_coords x_grid_def)
  have h2: "0 < length (mesh_coords ''Grid_mid/X_Grid_mid'' x_grid_mid)"
    by (simp add: length_mesh_coords x_grid_mid_def)
  have h3: "mesh_labels x_grid ! 0 = mesh_labels x_grid_mid ! 0"
    by (simp add: x_grid_def x_grid_mid_def)
  have b: "base_name_of ''Grid/X_Grid'' \<noteq> base_name_of ''Grid_mid/X_Grid_mid''"
    by (simp add: base_name_of_def split_maxsplit1_def)
  have h4: "open_sdf_dataset x_grid_file None = Inr ?ds"
    by (simp add: model_defs x_grid_file_def x_grid_def x_grid_mid_def)
  have c1: "fst (mesh_coords ''Grid/X_Grid'' x_grid ! 0) \<noteq>
     fst (mesh_coords ''Grid_mid/X_Grid_mid'' x_grid_mid ! 0)"
    using shared_label_names[of 0 "''Grid/X_Grid''" x_grid 0 "''Grid_mid/X_Grid_mid''" x_grid_mid
        x_grid_file None ?ds x_grid_file "[]" x_grid_file "''X_X_Grid''"]
      h1 h2 h3 b
    by simp
  have c2: "distinct (map fst (ds_coords ?ds))"
    using shared_label_names[of 0 "''Grid/X_Grid''" x_grid 0 "''Grid_mid/X_Grid_mid''" x_grid_mid
        x_grid_file None ?ds x_grid_file "[]" x_grid_file "''X_X_Grid''"]
      h4
    by simp
  have g1: "drop_requested None same_base_file = Inr same_base_file"
    by (simp add: drop_requested_def)
  have g2: "global_metadata same_base_file = Inr ([], same_base_file)"
    by (simp add: global_metadata_eq same_base_file_def)
  have g3: "open_sdf_dataset same_base_file None = Inr ?ds2"
    by (simp add: model_defs same_base_file_def fluid_mesh_def field_mesh_def)
  have g4: "coord_writes same_base_file =
     [(''X_Mesh'', (''X_Mesh'', 0, [(''long_name'', ''X''), (''units'', ''m'')])),
      (''X_Mesh'', (''X_Mesh'', 1, [(''long_name'', ''X''), (''units'', ''m'')]))]"
    by (simp add: coord_writes_def visible_def model_defs same_base_file_def fluid_mesh_def
          field_mesh_def)
  have "map_of (ds_coords ?ds2) ''X_Mesh'' = map_of (rev (coord_writes same_base_file)) ''X_Mesh''"
    using shared_label_names[of 0 "''Fluid/Mesh''" fluid_mesh 0 "''Field/Mesh''" field_mesh
        same_base_file None ?ds2 same_base_file "[]" same_base_file "''X_Mesh''"]
      g1 g2 g3
    by simp
  then have c3: "map_of (rev (coord_writes same_base_file)) ''X_Mesh'' =
     Some (''X_Mesh'', 1, [(''long_name'', ''X''), (''units'', ''m'')])"
    by simp
  show ?thesis
    using h1 h2 h3 b c1 h4 c2 g1 g2 g3 g4 c3 by (intro conjI)
qed

section \<open>The exclusion list\<close>

text \<open>
  Claim C3, as the code has it.  The names of the list are popped from the mapping one
  after the other, before anything else is read from it.

  \<^item> When the names of the list are distinct and all in the mapping, the result is the
    conversion of the mapping without these entries.

  \<^item> The first name of the list that is not in the mapping, or that stands in the list a
    second time, ends the call with \<^verbatim>\<open>KeyError\<close> of that name, the names before it being
    distinct and in the mapping.

  \<^item> In a dataset that is returned, no data variable has a name of the list.
\<close>

theorem drop_variables_effect:
  "(distinct vs \<and> set vs \<subseteq> fst ` set data \<longrightarrow>
      open_sdf_dataset data (Some vs) = convert (filter (\<lambda>kv. fst kv \<notin> set vs) data)) \<and>
   (distinct pre \<and> set pre \<subseteq> fst ` set data \<and> (n \<notin> fst ` set data \<or> n \<in> set pre) \<longrightarrow>
      open_sdf_dataset data (Some (pre @ n # post)) = Inl (KeyError (StrKey n))) \<and>
   (open_sdf_dataset data (Some vs) = Inr ds \<longrightarrow> fst ` set (ds_data_vars ds) \<inter> set vs = {})"
proof (intro conjI impI)
  assume "distinct vs \<and> set vs \<subseteq> fst ` set data"
  then show "open_sdf_dataset data (Some vs) = convert (filter (\<lambda>kv. fst kv \<notin> set vs) data)"
    by (simp add: open_sdf_dataset_def drop_requested_def pop_all_present)
next
  assume "distinct pre \<and> set pre \<subseteq> fst ` set data \<and> (n \<notin> fst ` set data \<or> n \<in> set pre)"
  then have "pop_all (pre @ n # post) data = Inl (KeyError (StrKey n))"
    using pop_all_fails[of pre data n post] by blast
  then show "open_sdf_dataset data (Some (pre @ n # post)) = Inl (KeyError (StrKey n))"
    by (simp add: open_sdf_dataset_def drop_requested_def)
next
  assume "open_sdf_dataset data (Some vs) = Inr ds"
  then obtain data1 a rest where d: "drop_requested (Some vs) data = Inr data1"
    and g: "global_metadata data1 = Inr (a, rest)"
    and m: "make_dataset (convert_blocks a rest) = Inr ds"
    using open_sdf_dataset_Inr by blast
  have k1: "fst ` set data1 \<inter> set vs = {}"
    using d pop_all_keys[of vs data data1] by (simp add: drop_requested_def)
  have k2: "fst ` set rest \<subseteq> fst ` set data1"
    using global_metadata_rest[OF g] by (auto simp: delete_filter)
  have k3: "fst ` set (variables_of rest) \<subseteq> fst ` set rest"
    using variables_of_keys[of rest] by (auto simp: visible_def)
  have k4: "fst ` set (ds_data_vars ds) = fst ` set (variables_of rest)"
    by (rule make_dataset_keys[OF m])
  have "fst ` set (ds_data_vars ds) \<subseteq> fst ` set data1"
    unfolding k4 using k3 k2 by (rule subset_trans)
  then show "fst ` set (ds_data_vars ds) \<inter> set vs = {}"
    using k1 by blast
qed

text \<open>
  In the file below the header has a key \<^verbatim>\<open>time\<close> and there is a constant \<^verbatim>\<open>time\<close>.
  With \<^verbatim>\<open>time\<close> in the list the dataset still has an attribute \<^verbatim>\<open>time\<close>, the one of the
  header.  With \<^verbatim>\<open>Wall-time\<close> twice in the list, before a name that is not in the file,
  the call ends with \<^verbatim>\<open>KeyError('Wall-time')\<close>, a name that is in the file.
\<close>

theorem drop_variables_effect_counterexample:
  "map_of drop_file ''time'' = Some (BlockConstant 5) \<and>
   map_of (ds_attrs (projr (open_sdf_dataset drop_file (Some [''time''])))) ''time'' = Some 1 \<and>
   map_of drop_file ''Wall-time'' = Some (BlockConstant 9) \<and>
   map_of drop_file ''Density'' = None \<and>
   open_sdf_dataset drop_file (Some [''Wall-time'', ''Wall-time'', ''Density'']) =
     Inl (KeyError (StrKey ''Wall-time''))"
  by (simp add: model_defs drop_file_def ex_var_def ex_grid_def ex_grid_mid_def)

theorem drop_variables_effect_witness:
  "distinct [''Electric Field/Ex'', ''time''] \<and>
   set [''Electric Field/Ex'', ''time''] \<subseteq> fst ` set drop_file \<and>
   open_sdf_dataset drop_file (Some [''Electric Field/Ex'', ''time'']) =
     convert [(''Header'', Dict [(''time'', 1)]),
              (''Wall-time'', BlockConstant 9),
              (''Grid/Grid'', BlockPlainMesh ex_grid),
              (''Grid/Grid_mid'', BlockPlainMesh ex_grid_mid)] \<and>
   distinct [''time''] \<and> set [''time''] \<subseteq> fst ` set drop_file \<and>
   ''Density'' \<notin> fst ` set drop_file \<and>
   open_sdf_dataset drop_file (Some ([''time''] @ ''Density'' # [''Wall-time''])) =
     Inl (KeyError (StrKey ''Density'')) \<and>
   open_sdf_dataset drop_file (Some [''Wall-time'']) =
     Inr \<lparr>ds_data_vars = [(''Electric Field/Ex'', ([''X_Grid_mid''], 5, [(''units'', ''V/m'')]))],
          ds_attrs = [(''time'', 5)],
          ds_coords = [(''X_Grid'', (''X_Grid'', 0, [(''long_name'', ''X''), (''units'', ''m'')])),
                       (''X_Grid_mid'', (''X_Grid_mid'', 1, [(''long_name'', ''X''), (''units'', ''m'')]))]\<rparr> \<and>
   fst ` set [(''Electric Field/Ex'', ([''X_Grid_mid''], 5 :: real, [(''units'', ''V/m'')]))] \<inter>
     set [''Wall-time''] = {}"
proof -
  let ?ds = "\<lparr>ds_data_vars = [(''Electric Field/Ex'', ([''X_Grid_mid''], 5 :: real, [(''units'', ''V/m'')]))],
          ds_attrs = [(''time'', 5 :: real)],
          ds_coords = [(''X_Grid'', (''X_Grid'', 0 :: real, [(''long_name'', ''X''), (''units'', ''m'')])),
                       (''X_Grid_mid'', (''X_Grid_mid'', 1, [(''long_name'', ''X''), (''units'', ''m'')]))]\<rparr>"
  have h1: "distinct [''Electric Field/Ex'', ''time''] \<and>
            set [''Electric Field/Ex'', ''time''] \<subseteq> fst ` set drop_file"
    by (simp add: drop_file_def)
  have f: "filter (\<lambda>kv. fst kv \<notin> set [''Electric Field/Ex'', ''time'']) drop_file =
      [(''Header'', Dict [(''time'', 1)]),
       (''Wall-time'', BlockConstant 9),
       (''Grid/Grid'', BlockPlainMesh ex_grid),
       (''Grid/Grid_mid'', BlockPlainMesh ex_grid_mid)]"
    by (simp add: drop_file_def)
  have c1: "open_sdf_dataset drop_file (Some [''Electric Field/Ex'', ''time'']) =
     convert [(''Header'', Dict [(''time'', 1)]),
              (''Wall-time'', BlockConstant 9),
              (''Grid/Grid'', BlockPlainMesh ex_grid),
              (''Grid/Grid_mid'', BlockPlainMesh ex_grid_mid)]"
    using drop_variables_effect[of "[''Electric Field/Ex'', ''time'']" drop_file] h1 f
    by simp
  have h2: "distinct [''time''] \<and> set [''time''] \<subseteq> fst ` set drop_file"
    by (simp add: drop_file_def)
  have h3: "''Density'' \<notin> fst ` set drop_file"
    by (simp add: drop_file_def)
  have c2: "open_sdf_dataset drop_file (Some ([''time''] @ ''Density'' # [''Wall-time''])) =
     Inl (KeyError (StrKey ''Density''))"
    using drop_variables_effect[of _ drop_file "[''time'']" "''Density''" "[''Wall-time'']"] h2 h3
    by blast
  have h4: "open_sdf_dataset drop_file (Some [''Wall-time'']) = Inr ?ds"
    by (simp add: model_defs drop_file_def ex_var_def ex_grid_def ex_grid_mid_def)
  have c3: "fst ` set (ds_data_vars ?ds) \<inter> set [''Wall-time''] = {}"
    using drop_variables_effect[of "[''Wall-time'']" drop_file _ _ _ ?ds] h4 by blast
  show ?thesis
    using h1 c1 h2 h3 c2 h4 c3 by simp
qed

end
